theory Spec2Isabelle
  imports Complex_Main
begin

section \<open>Data model of \<^verbatim>\<open>gtsam/geometry/Rot3M.cpp\<close>\<close>

text \<open>
  The file implements \<^verbatim>\<open>Rot3\<close> in its 3x3 matrix representation: three column
  points \<^verbatim>\<open>r1_\<close>, \<^verbatim>\<open>r2_\<close>, \<^verbatim>\<open>r3_\<close>. The scalar type is a type parameter of
  the model. The operations that only move scalars around (constructors, \<^verbatim>\<open>matrix\<close>,
  \<^verbatim>\<open>transpose\<close>, \<^verbatim>\<open>inverse\<close>, \<^verbatim>\<open>column\<close>) are stated for every scalar type, so
  what is proved of them holds for machine doubles as it stands. The operations that
  compute (\<^verbatim>\<open>Rx\<close>, \<^verbatim>\<open>rodriguez\<close>, \<^verbatim>\<open>Logmap\<close>, \<^verbatim>\<open>RQ\<close>, the charts) are taken at
  scalar type \<^typ>\<open>real\<close>: a \<^verbatim>\<open>double\<close> is idealised as the real number it stands
  for, and \<^verbatim>\<open>sin\<close>, \<^verbatim>\<open>cos\<close>, \<^verbatim>\<open>acos\<close>, \<^verbatim>\<open>sqrt\<close> of \<^verbatim>\<open>cmath\<close> as the real
  functions. Rounding is therefore outside the model.
\<close>

datatype error = domain_error | invalid_argument

text \<open>
  Modelled from the spec: \<^verbatim>\<open>Point3\<close> (gtsam/geometry/Point3.h), the 3-vector type
  with component accessors \<^verbatim>\<open>x()\<close>, \<^verbatim>\<open>y()\<close>, \<^verbatim>\<open>z()\<close>, addition and
  multiplication by a scalar.
\<close>

datatype 'a Point3 = Point3 (p_x: 'a) (p_y: 'a) (p_z: 'a)

definition Point3_plus :: "real Point3 \<Rightarrow> real Point3 \<Rightarrow> real Point3" where
  "Point3_plus p q = Point3 (p_x p + p_x q) (p_y p + p_y q) (p_z p + p_z q)"

definition Point3_times :: "real Point3 \<Rightarrow> real \<Rightarrow> real Point3" where
  "Point3_times p s = Point3 (p_x p * s) (p_y p * s) (p_z p * s)"

text \<open>
  Modelled from the spec: \<^verbatim>\<open>Vector\<close> (gtsam/base/Vector.h). Every vector this file
  builds (\<^verbatim>\<open>Vector_(3, a, b, c)\<close>) or reads (\<^verbatim>\<open>w(0)\<close>, \<^verbatim>\<open>w(1)\<close>, \<^verbatim>\<open>w(2)\<close>) has
  three components.
\<close>

datatype 'a Vector = Vector_3 (v0: 'a) (v1: 'a) (v2: 'a)

definition Vector_times :: "real \<Rightarrow> real Vector \<Rightarrow> real Vector" where
  "Vector_times s v = Vector_3 (s * v0 v) (s * v1 v) (s * v2 v)"

definition Vector_divide :: "real Vector \<Rightarrow> real \<Rightarrow> real Vector" where
  "Vector_divide v t = Vector_3 (v0 v / t) (v1 v / t) (v2 v / t)"

definition norm_Vector :: "real Vector \<Rightarrow> real" where
  "norm_Vector v = sqrt (v0 v * v0 v + v1 v * v1 v + v2 v * v2 v)"

text \<open>
  Modelled from the spec: \<^verbatim>\<open>Matrix\<close> (gtsam/base/Matrix.h), the dense matrix type,
  here always 3x3. The nine entries are listed row by row, the order in which the
  comma initialiser \<^verbatim>\<open>R << ...\<close> fills them; \<^verbatim>\<open>A(i, j)\<close> is the selector \<open>mij\<close>.
\<close>

datatype 'a Matrix = Matrix
  (m00: 'a) (m01: 'a) (m02: 'a)
  (m10: 'a) (m11: 'a) (m12: 'a)
  (m20: 'a) (m21: 'a) (m22: 'a)

definition Matrix_transpose :: "'a Matrix \<Rightarrow> 'a Matrix" where
  "Matrix_transpose A = Matrix
     (m00 A) (m10 A) (m20 A)
     (m01 A) (m11 A) (m21 A)
     (m02 A) (m12 A) (m22 A)"

definition Matrix_uminus :: "('a::uminus) Matrix \<Rightarrow> 'a Matrix" where
  "Matrix_uminus A = Matrix
     (- m00 A) (- m01 A) (- m02 A)
     (- m10 A) (- m11 A) (- m12 A)
     (- m20 A) (- m21 A) (- m22 A)"

definition Matrix_times :: "real Matrix \<Rightarrow> real Matrix \<Rightarrow> real Matrix" where
  "Matrix_times A B = Matrix
     (m00 A * m00 B + m01 A * m10 B + m02 A * m20 B)
     (m00 A * m01 B + m01 A * m11 B + m02 A * m21 B)
     (m00 A * m02 B + m01 A * m12 B + m02 A * m22 B)
     (m10 A * m00 B + m11 A * m10 B + m12 A * m20 B)
     (m10 A * m01 B + m11 A * m11 B + m12 A * m21 B)
     (m10 A * m02 B + m11 A * m12 B + m12 A * m22 B)
     (m20 A * m00 B + m21 A * m10 B + m22 A * m20 B)
     (m20 A * m01 B + m21 A * m11 B + m22 A * m21 B)
     (m20 A * m02 B + m21 A * m12 B + m22 A * m22 B)"

definition Matrix_plus :: "real Matrix \<Rightarrow> real Matrix \<Rightarrow> real Matrix" where
  "Matrix_plus A B = Matrix
     (m00 A + m00 B) (m01 A + m01 B) (m02 A + m02 B)
     (m10 A + m10 B) (m11 A + m11 B) (m12 A + m12 B)
     (m20 A + m20 B) (m21 A + m21 B) (m22 A + m22 B)"

text \<open>\<^verbatim>\<open>static const Matrix I3 = eye(3);\<close>\<close>

definition I3 :: "real Matrix" where
  "I3 = Matrix 1 0 0  0 1 0  0 0 1"

text \<open>
  Modelled from the spec: \<^verbatim>\<open>equal_with_abs_tol\<close> (gtsam/base/Matrix.h): all nine
  entries match within the tolerance.
\<close>

definition equal_with_abs_tol :: "real Matrix \<Rightarrow> real Matrix \<Rightarrow> real \<Rightarrow> bool" where
  "equal_with_abs_tol A B tol \<longleftrightarrow>
     \<bar>m00 A - m00 B\<bar> \<le> tol \<and> \<bar>m01 A - m01 B\<bar> \<le> tol \<and> \<bar>m02 A - m02 B\<bar> \<le> tol \<and>
     \<bar>m10 A - m10 B\<bar> \<le> tol \<and> \<bar>m11 A - m11 B\<bar> \<le> tol \<and> \<bar>m12 A - m12 B\<bar> \<le> tol \<and>
     \<bar>m20 A - m20 B\<bar> \<le> tol \<and> \<bar>m21 A - m21 B\<bar> \<le> tol \<and> \<bar>m22 A - m22 B\<bar> \<le> tol"

subsection \<open>The rotation and its constructors\<close>

text \<open>\<^verbatim>\<open>Rot3(const Point3& r1, const Point3& r2, const Point3& r3)\<close>: the three columns.\<close>

datatype 'a Rot3 = Rot3 (r1: "'a Point3") (r2: "'a Point3") (r3: "'a Point3")

text \<open>\<^verbatim>\<open>Rot3()\<close>: the identity.\<close>

definition Rot3_identity :: "real Rot3" where
  "Rot3_identity = Rot3 (Point3 1 0 0) (Point3 0 1 0) (Point3 0 0 1)"

text \<open>\<^verbatim>\<open>Rot3(R11, R12, R13, R21, R22, R23, R31, R32, R33)\<close>: row-major input, stored by column.\<close>

definition Rot3_entries :: "'a \<Rightarrow> 'a \<Rightarrow> 'a \<Rightarrow> 'a \<Rightarrow> 'a \<Rightarrow> 'a \<Rightarrow> 'a \<Rightarrow> 'a \<Rightarrow> 'a \<Rightarrow> 'a Rot3" where
  "Rot3_entries R11 R12 R13 R21 R22 R23 R31 R32 R33 =
     Rot3 (Point3 R11 R21 R31) (Point3 R12 R22 R32) (Point3 R13 R23 R33)"

text \<open>\<^verbatim>\<open>Rot3(const Matrix& R)\<close>\<close>

definition Rot3_Matrix :: "'a Matrix \<Rightarrow> 'a Rot3" where
  "Rot3_Matrix R =
     Rot3 (Point3 (m00 R) (m10 R) (m20 R))
          (Point3 (m01 R) (m11 R) (m21 R))
          (Point3 (m02 R) (m12 R) (m22 R))"

subsection \<open>Dense materialisations, inverse, column\<close>

definition matrix :: "'a Rot3 \<Rightarrow> 'a Matrix" where
  "matrix R = Matrix
     (p_x (r1 R)) (p_x (r2 R)) (p_x (r3 R))
     (p_y (r1 R)) (p_y (r2 R)) (p_y (r3 R))
     (p_z (r1 R)) (p_z (r2 R)) (p_z (r3 R))"

definition transpose_Rot3 :: "'a Rot3 \<Rightarrow> 'a Matrix" where
  "transpose_Rot3 R = Matrix
     (p_x (r1 R)) (p_y (r1 R)) (p_z (r1 R))
     (p_x (r2 R)) (p_y (r2 R)) (p_z (r2 R))
     (p_x (r3 R)) (p_y (r3 R)) (p_z (r3 R))"

text \<open>
  \<^verbatim>\<open>Rot3::inverse(boost::optional<Matrix&> H1)\<close>. The optional output slot is an
  argument and a result: \<open>None\<close> when the caller passes no slot, \<open>Some M\<close> when the
  caller passes a matrix holding \<open>M\<close>; the second component of the result is the slot
  after the call.
\<close>

definition inverse_Rot3 :: "('a::uminus) Rot3 \<Rightarrow> 'a Matrix option \<Rightarrow> 'a Rot3 \<times> 'a Matrix option" where
  "inverse_Rot3 R H1 =
     (let H1' = (case H1 of None \<Rightarrow> None | Some _ \<Rightarrow> Some (Matrix_uminus (matrix R)))
      in (Rot3_entries
            (p_x (r1 R)) (p_y (r1 R)) (p_z (r1 R))
            (p_x (r2 R)) (p_y (r2 R)) (p_z (r2 R))
            (p_x (r3 R)) (p_y (r3 R)) (p_z (r3 R)), H1'))"

text \<open>\<^verbatim>\<open>Rot3::column(int index)\<close>: the \<^verbatim>\<open>throw invalid_argument\<close> is the \<open>Inl\<close> result.\<close>

definition column :: "'a Rot3 \<Rightarrow> int \<Rightarrow> error + 'a Point3" where
  "column R index =
     (if index = 3 then Inr (r3 R)
      else if index = 2 then Inr (r2 R)
      else if index = 1 then Inr (r1 R)
      else Inl invalid_argument)"

subsection \<open>Library primitives the file calls\<close>

text \<open>
  \<^verbatim>\<open>atan2\<close> of \<^verbatim>\<open>cmath\<close> on real numbers: the angle of the point \<open>(x, y)\<close> in
  \<open>(-\<pi>, \<pi>]\<close>, and 0 at the origin.
\<close>

definition atan2 :: "real \<Rightarrow> real \<Rightarrow> real" where
  "atan2 y x =
     (if 0 < x then arctan (y / x)
      else if x < 0 then (if 0 \<le> y then arctan (y / x) + pi else arctan (y / x) - pi)
      else if 0 < y then pi / 2
      else if y < 0 then - (pi / 2)
      else 0)"

text \<open>
  Modelled from the spec: \<^verbatim>\<open>skewSymmetric\<close> (gtsam/base/Matrix.h), the
  skew-symmetric-matrix constructor from three scalars, and from a vector.
\<close>

definition skewSymmetric :: "real \<Rightarrow> real \<Rightarrow> real \<Rightarrow> real Matrix" where
  "skewSymmetric wx wy wz = Matrix
     0 (- wz) wy
     wz 0 (- wx)
     (- wy) wx 0"

definition skewSymmetric_Vector :: "real Vector \<Rightarrow> real Matrix" where
  "skewSymmetric_Vector w = skewSymmetric (v0 w) (v1 w) (v2 w)"

definition Matrix_minus :: "real Matrix \<Rightarrow> real Matrix \<Rightarrow> real Matrix" where
  "Matrix_minus A B = Matrix
     (m00 A - m00 B) (m01 A - m01 B) (m02 A - m02 B)
     (m10 A - m10 B) (m11 A - m11 B) (m12 A - m12 B)
     (m20 A - m20 B) (m21 A - m21 B) (m22 A - m22 B)"

definition Matrix_divide :: "real Matrix \<Rightarrow> real \<Rightarrow> real Matrix" where
  "Matrix_divide A s = Matrix
     (m00 A / s) (m01 A / s) (m02 A / s)
     (m10 A / s) (m11 A / s) (m12 A / s)
     (m20 A / s) (m21 A / s) (m22 A / s)"

definition determinant :: "real Matrix \<Rightarrow> real" where
  "determinant A =
     m00 A * (m11 A * m22 A - m12 A * m21 A)
     - m01 A * (m10 A * m22 A - m12 A * m20 A)
     + m02 A * (m10 A * m21 A - m11 A * m20 A)"

text \<open>
  Modelled from the spec: the fixed-size matrix inversion of the dense-matrix library
  (\<^verbatim>\<open>.inverse()\<close> on a 3x3 matrix): the transposed cofactors over the determinant.
\<close>

definition Matrix_inverse :: "real Matrix \<Rightarrow> real Matrix" where
  "Matrix_inverse A =
     (let invdet = 1 / determinant A in Matrix
        ((m11 A * m22 A - m12 A * m21 A) * invdet)
        ((m02 A * m21 A - m01 A * m22 A) * invdet)
        ((m01 A * m12 A - m02 A * m11 A) * invdet)
        ((m12 A * m20 A - m10 A * m22 A) * invdet)
        ((m00 A * m22 A - m02 A * m20 A) * invdet)
        ((m02 A * m10 A - m00 A * m12 A) * invdet)
        ((m10 A * m21 A - m11 A * m20 A) * invdet)
        ((m01 A * m20 A - m00 A * m21 A) * invdet)
        ((m00 A * m11 A - m01 A * m10 A) * invdet))"

text \<open>
  Modelled from the spec: the fixed-size Cayley-transform primitive \<^verbatim>\<open>Cayley<3>\<close>
  (gtsam/base/Matrix.h), \<open>(I - A)(I + A)\<^sup>-\<^sup>1\<close>; on \<open>- \<Omega> / 2\<close> it is the
  \<open>(I + \<Omega>/2)(I - \<Omega>/2)\<^sup>-\<^sup>1\<close> of the spec.
\<close>

definition Cayley :: "real Matrix \<Rightarrow> real Matrix" where
  "Cayley A = Matrix_times (Matrix_minus I3 A) (Matrix_inverse (Matrix_plus I3 A))"

text \<open>\<^verbatim>\<open>if (H) *H = v;\<close> on an optional output slot.\<close>

definition write_slot :: "'a option \<Rightarrow> 'a \<Rightarrow> 'a option" where
  "write_slot H v = (case H of None \<Rightarrow> None | Some _ \<Rightarrow> Some v)"

subsection \<open>Factories\<close>

definition Rx :: "real \<Rightarrow> real Rot3" where
  "Rx t = (let st = sin t; ct = cos t in Rot3_entries
     1 0 0
     0 ct (- st)
     0 st ct)"

definition Ry :: "real \<Rightarrow> real Rot3" where
  "Ry t = (let st = sin t; ct = cos t in Rot3_entries
     ct 0 st
     0 1 0
     (- st) 0 ct)"

definition Rz :: "real \<Rightarrow> real Rot3" where
  "Rz t = (let st = sin t; ct = cos t in Rot3_entries
     ct (- st) 0
     st ct 0
     0 0 1)"

definition RzRyRx :: "real \<Rightarrow> real \<Rightarrow> real \<Rightarrow> real Rot3" where
  "RzRyRx x y z =
     (let cx = cos x; sx = sin x;
          cy = cos y; sy = sin y;
          cz = cos z; sz = sin z;
          ss_u = sx * sy;
          cs_u = cx * sy;
          sc_u = sx * cy;
          cc_u = cx * cy;
          c_s = cx * sz;
          s_s = sx * sz;
          u_cs = cy * sz;
          u_cc = cy * cz;
          s_c = sx * cz;
          c_c = cx * cz;
          ssc = ss_u * cz; csc = cs_u * cz; sss = ss_u * sz; css = cs_u * sz
      in Rot3_entries
          u_cc (- c_s + ssc) (s_s + csc)
          u_cs (c_c + sss) (- s_c + css)
          (- sy) sc_u cc_u)"

text \<open>
  \<^verbatim>\<open>Rot3::rodriguez(const Vector& w, double theta)\<close>. The first argument of the model
  is the build configuration: \<open>True\<close> when \<^verbatim>\<open>NDEBUG\<close> is defined (a release build),
  in which the length check is compiled out. The \<^verbatim>\<open>throw domain_error\<close> is the \<open>Inl\<close>
  result.
\<close>

definition rodriguez :: "bool \<Rightarrow> real Vector \<Rightarrow> real \<Rightarrow> error + real Rot3" where
  "rodriguez NDEBUG w theta =
     (let wx = v0 w; wy = v1 w; wz = v2 w;
          wwTxx = wx * wx; wwTyy = wy * wy; wwTzz = wz * wz;
          l_n = wwTxx + wwTyy + wwTzz
      in if \<not> NDEBUG \<and> \<bar>l_n - 1\<bar> > 1 / 10 ^ 9 then Inl domain_error
         else
           (let c = cos theta; s = sin theta; c_1 = 1 - c;
                swx = wx * s; swy = wy * s; swz = wz * s;
                C00 = c_1 * wwTxx; C01 = c_1 * wx * wy; C02 = c_1 * wx * wz;
                C11 = c_1 * wwTyy; C12 = c_1 * wy * wz;
                C22 = c_1 * wwTzz
            in Inr (Rot3_entries
                 (c + C00) (- swz + C01) (swy + C02)
                 (swz + C01) (c + C11) (- swx + C12)
                 (- swy + C02) (swx + C12) (c + C22))))"

text \<open>\<^verbatim>\<open>Rot3::rodriguez(const Vector& w)\<close>\<close>

definition rodriguez_Vector :: "bool \<Rightarrow> real Vector \<Rightarrow> error + real Rot3" where
  "rodriguez_Vector NDEBUG w =
     (let t = norm_Vector w
      in if t < 1 / 10 ^ 10 then Inr Rot3_identity
         else rodriguez NDEBUG (Vector_divide w t) t)"

text \<open>
  Modelled from the spec: \<^verbatim>\<open>Rot3::Expmap\<close> (gtsam/geometry/Rot3.h), the exponential
  chart at the identity, \<open>\<Delta> = Rodrigues(\<omega>)\<close>.
\<close>

definition Expmap :: "bool \<Rightarrow> real Vector \<Rightarrow> error + real Rot3" where
  "Expmap NDEBUG v = rodriguez_Vector NDEBUG v"

subsection \<open>Group operations\<close>

definition equals :: "real Rot3 \<Rightarrow> real Rot3 \<Rightarrow> real \<Rightarrow> bool" where
  "equals this R tol = equal_with_abs_tol (matrix this) (matrix R) tol"

text \<open>
  \<^verbatim>\<open>Rot3::rotate(p, H1, H2)\<close>: the rotated point, and the two Jacobian slots after
  the call.
\<close>

definition rotate_Rot3 ::
  "real Rot3 \<Rightarrow> real Point3 \<Rightarrow> real Matrix option \<Rightarrow> real Matrix option
     \<Rightarrow> real Point3 \<times> real Matrix option \<times> real Matrix option" where
  "rotate_Rot3 this p H1 H2 =
     (let R = matrix this;
          H1' = write_slot H1 (Matrix_times R (skewSymmetric (- p_x p) (- p_y p) (- p_z p)));
          H2' = write_slot H2 R
      in (Point3_plus (Point3_plus (Point3_times (r1 this) (p_x p)) (Point3_times (r2 this) (p_y p)))
                      (Point3_times (r3 this) (p_z p)), H1', H2'))"

text \<open>\<^verbatim>\<open>Rot3::operator*(const Rot3& R2)\<close>\<close>

definition Rot3_times :: "real Rot3 \<Rightarrow> real Rot3 \<Rightarrow> real Rot3" where
  "Rot3_times this R2 =
     Rot3 (fst (rotate_Rot3 this (r1 R2) None None))
          (fst (rotate_Rot3 this (r2 R2) None None))
          (fst (rotate_Rot3 this (r3 R2) None None))"

text \<open>\<^verbatim>\<open>Rot3::operator*(const Point3& p)\<close>\<close>

definition Rot3_times_Point3 :: "real Rot3 \<Rightarrow> real Point3 \<Rightarrow> real Point3" where
  "Rot3_times_Point3 this p = fst (rotate_Rot3 this p None None)"

definition compose ::
  "real Rot3 \<Rightarrow> real Rot3 \<Rightarrow> real Matrix option \<Rightarrow> real Matrix option
     \<Rightarrow> real Rot3 \<times> real Matrix option \<times> real Matrix option" where
  "compose this R2 H1 H2 =
     (Rot3_times this R2, write_slot H1 (transpose_Rot3 R2), write_slot H2 I3)"

text \<open>
  Modelled from the spec: \<^verbatim>\<open>between_default\<close> (gtsam/base/Lie.h),
  \<open>between(R1, R2) = R1\<^sup>-\<^sup>1 \<cdot> R2\<close>.
\<close>

definition between_default :: "real Rot3 \<Rightarrow> real Rot3 \<Rightarrow> real Rot3" where
  "between_default l1 l2 = Rot3_times (fst (inverse_Rot3 l1 None)) l2"

definition between ::
  "real Rot3 \<Rightarrow> real Rot3 \<Rightarrow> real Matrix option \<Rightarrow> real Matrix option
     \<Rightarrow> real Rot3 \<times> real Matrix option \<times> real Matrix option" where
  "between this R2 H1 H2 =
     (between_default this R2,
      write_slot H1 (Matrix_uminus (Matrix_times (transpose_Rot3 R2) (matrix this))),
      write_slot H2 I3)"

definition unrotate ::
  "real Rot3 \<Rightarrow> real Point3 \<Rightarrow> real Matrix option \<Rightarrow> real Matrix option
     \<Rightarrow> real Point3 \<times> real Matrix option \<times> real Matrix option" where
  "unrotate this p H1 H2 =
     (let q = Point3
            (p_x (r1 this) * p_x p + p_y (r1 this) * p_y p + p_z (r1 this) * p_z p)
            (p_x (r2 this) * p_x p + p_y (r2 this) * p_y p + p_z (r2 this) * p_z p)
            (p_x (r3 this) * p_x p + p_y (r3 this) * p_y p + p_z (r3 this) * p_z p)
      in (q, write_slot H1 (skewSymmetric (p_x q) (p_y q) (p_z q)),
             write_slot H2 (transpose_Rot3 this)))"

subsection \<open>Manifold operations\<close>

text \<open>
  \<^verbatim>\<open>Rot3::Logmap\<close>. \<^verbatim>\<open>acos\<close> is \<^term>\<open>arccos\<close>, which like \<^verbatim>\<open>acos\<close> is only
  meaningful on \<open>[-1, 1]\<close>; the claims below use it on the trace of an orthonormal
  matrix only.
\<close>

definition Logmap :: "real Rot3 \<Rightarrow> real Vector" where
  "Logmap R =
     (let tr = p_x (r1 R) + p_y (r2 R) + p_z (r3 R)
      in if \<bar>tr + 1\<bar> < 1 / 10 ^ 10 then
           (if \<bar>p_z (r3 R) + 1\<bar> > 1 / 10 ^ 10 then
              Vector_times (pi / sqrt (2 + 2 * p_z (r3 R)))
                (Vector_3 (p_x (r3 R)) (p_y (r3 R)) (1 + p_z (r3 R)))
            else if \<bar>p_y (r2 R) + 1\<bar> > 1 / 10 ^ 10 then
              Vector_times (pi / sqrt (2 + 2 * p_y (r2 R)))
                (Vector_3 (p_x (r2 R)) (1 + p_y (r2 R)) (p_z (r2 R)))
            else
              Vector_times (pi / sqrt (2 + 2 * p_x (r1 R)))
                (Vector_3 (1 + p_x (r1 R)) (p_y (r1 R)) (p_z (r1 R))))
         else
           (let tr_3 = tr - 3;
                magnitude =
                  (if tr_3 < - (1 / 10 ^ 7) then
                     (let theta = arccos ((tr - 1) / 2) in theta / (2 * sin theta))
                   else 1 / 2 - tr_3 * tr_3 / 12)
            in Vector_times magnitude
                 (Vector_3
                    (p_z (r2 R) - p_y (r3 R))
                    (p_x (r3 R) - p_z (r1 R))
                    (p_y (r1 R) - p_x (r2 R)))))"

text \<open>
  The chart modes. The enumeration is closed, so the final \<^verbatim>\<open>assert(false); exit(1)\<close>
  branch of \<^verbatim>\<open>retract\<close> and \<^verbatim>\<open>localCoordinates\<close> has no input.
\<close>

datatype CoordinatesMode = EXPMAP | CALEY | SLOW_CALEY

definition retract :: "bool \<Rightarrow> real Rot3 \<Rightarrow> real Vector \<Rightarrow> CoordinatesMode \<Rightarrow> error + real Rot3" where
  "retract NDEBUG this omega mode =
     (case mode of
        EXPMAP \<Rightarrow>
          (case Expmap NDEBUG omega of
             Inl err \<Rightarrow> Inl err
           | Inr E \<Rightarrow> Inr (Rot3_times this E))
      | CALEY \<Rightarrow>
          (let x = v0 omega; y = v1 omega; z = v2 omega;
               x2 = x * x; y2 = y * y; z2 = z * z;
               xy = x * y; xz = x * z; yz = y * z;
               f = 1 / (4 + x2 + y2 + z2); f2 = 2 * f
           in Inr (Rot3_times this (Rot3_entries
                ((4 + x2 - y2 - z2) * f) ((xy - 2 * z) * f2) ((xz + 2 * y) * f2)
                ((xy + 2 * z) * f2) ((4 - x2 + y2 - z2) * f) ((yz - 2 * x) * f2)
                ((xz - 2 * y) * f2) ((yz + 2 * x) * f2) ((4 - x2 - y2 + z2) * f))))
      | SLOW_CALEY \<Rightarrow>
          (let Omega = skewSymmetric_Vector omega
           in Inr (Rot3_times this (Rot3_Matrix (Cayley (Matrix_divide (Matrix_uminus Omega) 2))))))"

definition localCoordinates :: "real Rot3 \<Rightarrow> real Rot3 \<Rightarrow> CoordinatesMode \<Rightarrow> real Vector" where
  "localCoordinates this T mode =
     (case mode of
        EXPMAP \<Rightarrow> Logmap (fst (between this T None None))
      | CALEY \<Rightarrow>
          (let A = matrix (fst (between this T None None));
               a = m00 A; b = m01 A; c = m02 A;
               d = m10 A; e = m11 A; f = m12 A;
               g = m20 A; h = m21 A; i = m22 A;
               di = d * i; ce = c * e; cd = c * d; fg = f * g;
               M = 1 + e - f * h + i + e * i;
               K = 2 / (cd * h + M + a * M - g * (c + ce) - b * (d + di - fg));
               x = (a * f - cd + f) * K;
               y = (b * f - ce - c) * K;
               z = (fg - di - d) * K
           in Vector_times (- 2) (Vector_3 x y z))
      | SLOW_CALEY \<Rightarrow>
          (let A = matrix (fst (between this T None None));
               Omega = Cayley A
           in Vector_times (- 2) (Vector_3 (m21 Omega) (m02 Omega) (m10 Omega))))"

subsection \<open>Decomposition\<close>

definition RQ :: "real Matrix \<Rightarrow> real Matrix \<times> real Vector" where
  "RQ A =
     (let x = - atan2 (- m21 A) (m22 A);
          Qx = Rx (- x);
          B = Matrix_times A (matrix Qx);
          y = - atan2 (m20 B) (m22 B);
          Qy = Ry (- y);
          C = Matrix_times B (matrix Qy);
          z = - atan2 (- m10 C) (m11 C);
          Qz = Rz (- z);
          R = Matrix_times C (matrix Qz);
          xyz = Vector_3 x y z
      in (R, xyz))"

definition xyz :: "real Rot3 \<Rightarrow> real Vector" where
  "xyz this = snd (RQ (matrix this))"

definition ypr :: "real Rot3 \<Rightarrow> real Vector" where
  "ypr this = (let q = xyz this in Vector_3 (v2 q) (v1 q) (v0 q))"

definition rpy :: "real Rot3 \<Rightarrow> real Vector" where
  "rpy this = (let q = xyz this in Vector_3 (v0 q) (v1 q) (v2 q))"

subsection \<open>The invariant of the spec\<close>

text \<open>
  A rotation in the sense of the spec's data model: orthonormal, \<open>R\<^sup>t R = I\<close>, and
  right-handed, \<open>det R = 1\<close>.
\<close>

definition orthonormal :: "real Rot3 \<Rightarrow> bool" where
  "orthonormal R \<longleftrightarrow> Matrix_times (transpose_Rot3 R) (matrix R) = I3"

definition is_rotation :: "real Rot3 \<Rightarrow> bool" where
  "is_rotation R \<longleftrightarrow> orthonormal R \<and> determinant (matrix R) = 1"

subsection \<open>Notions the claims are stated with\<close>

text \<open>Column \<open>j\<close> (0, 1 or 2) of a dense matrix, as a vector.\<close>

definition Matrix_column :: "'a Matrix \<Rightarrow> nat \<Rightarrow> 'a Vector" where
  "Matrix_column A j =
     (if j = 0 then Vector_3 (m00 A) (m10 A) (m20 A)
      else if j = 1 then Vector_3 (m01 A) (m11 A) (m21 A)
      else Vector_3 (m02 A) (m12 A) (m22 A))"

definition trace :: "real Matrix \<Rightarrow> real" where
  "trace A = m00 A + m11 A + m22 A"

text \<open>
  The product the spec's contract for \<^verbatim>\<open>RQ\<close> names, \<open>R \<cdot> Rx(x) \<cdot> Ry(y) \<cdot> Rz(z)\<close>, and
  the product in the opposite order of the three elementary rotations,
  \<open>R \<cdot> Rz(z) \<cdot> Ry(y) \<cdot> Rx(x)\<close>.
\<close>

definition product_R_Rx_Ry_Rz :: "real Matrix \<Rightarrow> real Vector \<Rightarrow> real Matrix" where
  "product_R_Rx_Ry_Rz R q =
     Matrix_times (Matrix_times (Matrix_times R (matrix (Rx (v0 q)))) (matrix (Ry (v1 q))))
       (matrix (Rz (v2 q)))"

definition product_R_Rz_Ry_Rx :: "real Matrix \<Rightarrow> real Vector \<Rightarrow> real Matrix" where
  "product_R_Rz_Ry_Rx R q =
     Matrix_times (Matrix_times (Matrix_times R (matrix (Rz (v2 q)))) (matrix (Ry (v1 q))))
       (matrix (Rx (v0 q)))"

text \<open>
  The divisor and the vector of the branch that \<^verbatim>\<open>Logmap\<close> takes when the trace is
  within \<open>1e-10\<close> of \<open>-1\<close>, under the names the statements below use for them.
\<close>

definition Logmap_pi_divisor :: "real Rot3 \<Rightarrow> real" where
  "Logmap_pi_divisor R =
     (if \<bar>p_z (r3 R) + 1\<bar> > 1 / 10 ^ 10 then sqrt (2 + 2 * p_z (r3 R))
      else if \<bar>p_y (r2 R) + 1\<bar> > 1 / 10 ^ 10 then sqrt (2 + 2 * p_y (r2 R))
      else sqrt (2 + 2 * p_x (r1 R)))"

definition Logmap_pi_column :: "real Rot3 \<Rightarrow> real Vector" where
  "Logmap_pi_column R =
     (if \<bar>p_z (r3 R) + 1\<bar> > 1 / 10 ^ 10 then Vector_3 (p_x (r3 R)) (p_y (r3 R)) (1 + p_z (r3 R))
      else if \<bar>p_y (r2 R) + 1\<bar> > 1 / 10 ^ 10 then Vector_3 (p_x (r2 R)) (1 + p_y (r2 R)) (p_z (r2 R))
      else Vector_3 (1 + p_x (r1 R)) (p_y (r1 R)) (p_z (r1 R)))"

text \<open>
  Modelled from the spec: \<^verbatim>\<open>equal_with_abs_tol\<close> on vectors (gtsam/base/Vector.h):
  all three components match within the tolerance.
\<close>

definition equal_with_abs_tol_Vector :: "real Vector \<Rightarrow> real Vector \<Rightarrow> real \<Rightarrow> bool" where
  "equal_with_abs_tol_Vector u v tol \<longleftrightarrow>
     \<bar>v0 u - v0 v\<bar> \<le> tol \<and> \<bar>v1 u - v1 v\<bar> \<le> tol \<and> \<bar>v2 u - v2 v\<bar> \<le> tol"

text \<open>
  The two round trips of the spec, as the caller writes them:
  \<^verbatim>\<open>Logmap(rodriguez(w, theta))\<close> and
  \<^verbatim>\<open>R.localCoordinates(R.retract(omega, mode), mode)\<close>. A failure of the inner call
  is the failure of the whole.
\<close>

definition Logmap_rodriguez :: "bool \<Rightarrow> real Vector \<Rightarrow> real \<Rightarrow> error + real Vector" where
  "Logmap_rodriguez NDEBUG w theta =
     (case rodriguez NDEBUG w theta of Inl err \<Rightarrow> Inl err | Inr R \<Rightarrow> Inr (Logmap R))"

definition localCoordinates_retract ::
  "bool \<Rightarrow> real Rot3 \<Rightarrow> real Vector \<Rightarrow> CoordinatesMode \<Rightarrow> error + real Vector" where
  "localCoordinates_retract NDEBUG R omega mode =
     (case retract NDEBUG R omega mode of
        Inl err \<Rightarrow> Inl err
      | Inr T \<Rightarrow> Inr (localCoordinates R T mode))"

text \<open>
  The nine entries that the \<^verbatim>\<open>CALEY\<close> branch of \<^verbatim>\<open>retract\<close> passes to the
  constructor, as a matrix, with the factor \<open>f\<close> as an argument.
\<close>

definition caley_matrix :: "real \<Rightarrow> real \<Rightarrow> real \<Rightarrow> real \<Rightarrow> real Matrix" where
  "caley_matrix f x y z = Matrix
     ((4 + x * x - y * y - z * z) * f) ((x * y - 2 * z) * (2 * f)) ((x * z + 2 * y) * (2 * f))
     ((x * y + 2 * z) * (2 * f)) ((4 - x * x + y * y - z * z) * f) ((y * z - 2 * x) * (2 * f))
     ((x * z - 2 * y) * (2 * f)) ((y * z + 2 * x) * (2 * f)) ((4 - x * x - y * y + z * z) * f)"

section \<open>Inverse, transpose and column\<close>

text \<open>
  C6: for every rotation \<open>R\<close>, \<^verbatim>\<open>inverse\<close> returns the transpose: the matrix of the
  result is the matrix of \<open>R\<close> transposed. When the optional Jacobian slot is supplied
  it is written with \<open>- matrix R\<close>, and when it is not supplied there is no slot after
  the call either.
\<close>

theorem inverse_is_transpose_with_jacobian:
  "matrix (fst (inverse_Rot3 R H1)) = Matrix_transpose (matrix R) \<and>
   snd (inverse_Rot3 R (Some M)) = Some (Matrix_uminus (matrix R)) \<and>
   snd (inverse_Rot3 R None) = None"
  by (simp add: inverse_Rot3_def Rot3_entries_def matrix_def Matrix_transpose_def Let_def)

text \<open>
  C7: \<^verbatim>\<open>column\<close> returns \<^verbatim>\<open>r1_\<close>, \<^verbatim>\<open>r2_\<close>, \<^verbatim>\<open>r3_\<close> for the indices 1, 2, 3 and fails
  with \<^verbatim>\<open>invalid_argument\<close> for every other index. The function is pure: the rotation
  is an argument that is only read.
\<close>

theorem column_index_contract:
  "column R 1 = Inr (r1 R) \<and> column R 2 = Inr (r2 R) \<and> column R 3 = Inr (r3 R) \<and>
   (index \<noteq> 1 \<and> index \<noteq> 2 \<and> index \<noteq> 3 \<longrightarrow> column R index = Inl invalid_argument)"
  by (simp add: column_def)

theorem column_index_contract_witness:
  "column (Rot3 (Point3 (1::int) 0 0) (Point3 0 1 0) (Point3 0 0 1)) 1 = Inr (Point3 1 0 0) \<and>
   column (Rot3 (Point3 (1::int) 0 0) (Point3 0 1 0) (Point3 0 0 1)) 2 = Inr (Point3 0 1 0) \<and>
   column (Rot3 (Point3 (1::int) 0 0) (Point3 0 1 0) (Point3 0 0 1)) 3 = Inr (Point3 0 0 1) \<and>
   column (Rot3 (Point3 (1::int) 0 0) (Point3 0 1 0) (Point3 0 0 1)) 4 = Inl invalid_argument"
  using column_index_contract
    [of "Rot3 (Point3 (1::int) 0 0) (Point3 0 1 0) (Point3 0 0 1)" 4]
  by simp

text \<open>
  C10: \<^verbatim>\<open>inverse\<close> is an exact involution, for every scalar type: it only rearranges
  the nine stored scalars, so inverting twice gives back the rotation entry for entry,
  and the matrix of the inverse is exactly what \<^verbatim>\<open>Rot3::transpose\<close> materialises.
\<close>

theorem inverse_involution_exact:
  "fst (inverse_Rot3 (fst (inverse_Rot3 R H1)) H2) = R \<and>
   matrix (fst (inverse_Rot3 R H1)) = transpose_Rot3 R"
  by (cases R; cases "r1 R"; cases "r2 R"; cases "r3 R")
     (simp add: inverse_Rot3_def Rot3_entries_def matrix_def transpose_Rot3_def Let_def)

section \<open>The RQ decomposition\<close>

lemma Matrix_times_assoc:
  "Matrix_times (Matrix_times A B) C = Matrix_times A (Matrix_times B C)"
  by (simp add: Matrix_times_def algebra_simps)

lemma Matrix_times_I3_right: "Matrix_times A I3 = A"
  by (cases A) (simp add: Matrix_times_def I3_def)

lemma Matrix_times_I3_left: "Matrix_times I3 A = A"
  by (cases A) (simp add: Matrix_times_def I3_def)

lemma sin_cos_mult_add: "sin t * sin t + cos t * cos t = (1::real)"
  using sin_cos_squared_add3 [of t] by (simp add: add.commute)

lemma Rx_cancel: "Matrix_times (matrix (Rx t)) (matrix (Rx (- t))) = I3"
  by (simp add: Rx_def Let_def matrix_def Rot3_entries_def Matrix_times_def I3_def
        sin_cos_mult_add)

lemma Ry_cancel: "Matrix_times (matrix (Ry t)) (matrix (Ry (- t))) = I3"
  by (simp add: Ry_def Let_def matrix_def Rot3_entries_def Matrix_times_def I3_def
        sin_cos_mult_add)

lemma Rz_cancel: "Matrix_times (matrix (Rz t)) (matrix (Rz (- t))) = I3"
  by (simp add: Rz_def Let_def matrix_def Rot3_entries_def Matrix_times_def I3_def
        sin_cos_mult_add)

lemma RQ_product:
  "Matrix_times (Matrix_times (Matrix_times
      (Matrix_times (Matrix_times (Matrix_times A (matrix (Rx a))) (matrix (Ry b))) (matrix (Rz c)))
      (matrix (Rz (- c)))) (matrix (Ry (- b)))) (matrix (Rx (- a))) = A"
proof -
  have z: "Matrix_times (Matrix_times X (matrix (Rz c))) (matrix (Rz (- c))) = X" for X
    by (simp add: Matrix_times_assoc Rz_cancel Matrix_times_I3_right)
  have y: "Matrix_times (Matrix_times X (matrix (Ry b))) (matrix (Ry (- b))) = X" for X
    by (simp add: Matrix_times_assoc Ry_cancel Matrix_times_I3_right)
  have x: "Matrix_times (Matrix_times X (matrix (Rx a))) (matrix (Rx (- a))) = X" for X
    by (simp add: Matrix_times_assoc Rx_cancel Matrix_times_I3_right)
  show ?thesis by (simp only: x y z)
qed

text \<open>
  C1, as amended: for every 3x3 matrix \<open>A\<close>, \<^verbatim>\<open>RQ\<close> returns \<open>(R, (x, y, z))\<close> with
  \<open>A = R \<cdot> Rz(z) \<cdot> Ry(y) \<cdot> Rx(x)\<close>: a genuine factorisation, with the three elementary
  rotations in the order opposite to the one the spec writes. In real arithmetic the
  equation is exact.
\<close>

theorem RQ_factorization_reversed_order:
  "product_R_Rz_Ry_Rx (fst (RQ A)) (snd (RQ A)) = A"
  using RQ_product [of A "atan2 (- m21 A) (m22 A)" _ _]
  by (simp add: RQ_def Let_def product_R_Rz_Ry_Rx_def)

text \<open>
  C1 as stated fails. The matrix \<open>A = Rz(\<pi>/2) \<cdot> Rx(\<pi>/2)\<close> is orthogonal with
  determinant 1; \<^verbatim>\<open>RQ\<close> returns \<open>R = I\<close> and the angles \<open>(\<pi>/2, 0, \<pi>/2)\<close>, and
  \<open>R \<cdot> Rx(x) \<cdot> Ry(y) \<cdot> Rz(z)\<close> differs from \<open>A\<close> by 1 in several entries.
\<close>

theorem RQ_claimed_order_counterexample:
  "Matrix_times (Matrix_transpose (Matrix 0 0 1  1 0 0  0 1 0)) (Matrix 0 0 1  1 0 0  0 1 0) = I3 \<and>
   determinant (Matrix 0 0 1  1 0 0  0 1 0) = 1 \<and>
   RQ (Matrix 0 0 1  1 0 0  0 1 0) = (I3, Vector_3 (pi / 2) 0 (pi / 2)) \<and>
   product_R_Rx_Ry_Rz (fst (RQ (Matrix 0 0 1  1 0 0  0 1 0))) (snd (RQ (Matrix 0 0 1  1 0 0  0 1 0)))
     = Matrix 0 (- 1) 0  0 0 (- 1)  1 0 0 \<and>
   \<not> equal_with_abs_tol (Matrix 0 0 1  1 0 0  0 1 0)
       (product_R_Rx_Ry_Rz (fst (RQ (Matrix 0 0 1  1 0 0  0 1 0)))
          (snd (RQ (Matrix 0 0 1  1 0 0  0 1 0)))) (1 / 2)"
proof -
  have rq: "RQ (Matrix 0 0 1  1 0 0  0 1 0) = (I3, Vector_3 (pi / 2) 0 (pi / 2))"
    by (simp add: RQ_def atan2_def Let_def Rx_def Ry_def Rz_def Matrix_times_def matrix_def
          Rot3_entries_def I3_def)
  have pr: "product_R_Rx_Ry_Rz I3 (Vector_3 (pi / 2) 0 (pi / 2)) = Matrix 0 (- 1) 0  0 0 (- 1)  1 0 0"
    by (simp add: product_R_Rx_Ry_Rz_def Rx_def Ry_def Rz_def Let_def Matrix_times_def matrix_def
          Rot3_entries_def I3_def)
  show ?thesis
    by (simp add: rq pr) (simp add: Matrix_times_def Matrix_transpose_def I3_def determinant_def
          equal_with_abs_tol_def)
qed

section \<open>Factories\<close>

text \<open>
  C5: for all angles, the fused factory \<^verbatim>\<open>RzRyRx\<close> produces the rotation
  \<open>Rz(z) \<cdot> Ry(y) \<cdot> Rx(x)\<close> composed with \<^verbatim>\<open>operator*\<close> from the three elementary
  factories: in real arithmetic the two are equal, hence equal under \<^verbatim>\<open>equals\<close> for
  every tolerance.
\<close>

theorem RzRyRx_is_composed_product:
  "RzRyRx x y z = Rot3_times (Rot3_times (Rz z) (Ry y)) (Rx x) \<and>
   (0 \<le> tol \<longrightarrow> equals (RzRyRx x y z) (Rot3_times (Rot3_times (Rz z) (Ry y)) (Rx x)) tol)"
proof -
  have e: "RzRyRx x y z = Rot3_times (Rot3_times (Rz z) (Ry y)) (Rx x)"
    by (simp add: RzRyRx_def Rz_def Ry_def Rx_def Rot3_times_def rotate_Rot3_def Rot3_entries_def
        Point3_plus_def Point3_times_def Let_def write_slot_def algebra_simps)
  show ?thesis
    by (simp only: e [symmetric]) (simp add: equals_def equal_with_abs_tol_def)
qed

theorem RzRyRx_is_composed_product_witness:
  "RzRyRx (pi / 2) 0 pi = Rot3_entries (- 1) 0 0  0 0 1  0 1 0 \<and>
   Rot3_times (Rot3_times (Rz pi) (Ry 0)) (Rx (pi / 2)) = Rot3_entries (- 1) 0 0  0 0 1  0 1 0 \<and>
   equals (RzRyRx (pi / 2) 0 pi) (Rot3_times (Rot3_times (Rz pi) (Ry 0)) (Rx (pi / 2))) (1 / 10 ^ 9)"
proof -
  have a: "RzRyRx (pi / 2) 0 pi = Rot3_entries (- 1) 0 0  0 0 1  0 1 0"
    by (simp add: RzRyRx_def Let_def)
  note t = RzRyRx_is_composed_product [of "pi / 2" 0 pi "1 / 10 ^ 9"]
  have b: "RzRyRx (pi / 2) 0 pi = Rot3_times (Rot3_times (Rz pi) (Ry 0)) (Rx (pi / 2))"
    using t by blast
  have c: "equals (RzRyRx (pi / 2) 0 pi) (Rot3_times (Rot3_times (Rz pi) (Ry 0)) (Rx (pi / 2))) (1 / 10 ^ 9)"
    by (rule t [THEN conjunct2, THEN mp]) simp
  have d: "Rot3_times (Rot3_times (Rz pi) (Ry 0)) (Rx (pi / 2)) = Rot3_entries (- 1) 0 0  0 0 1  0 1 0"
    by (simp only: b [symmetric] a)
  show ?thesis using a c d by blast
qed

text \<open>
  C8: \<^verbatim>\<open>rodriguez(axis, theta)\<close> fails, with \<^verbatim>\<open>domain_error\<close>, exactly when the build
  is a debug build and \<open>|\<parallel>axis\<parallel>\<^sup>2 - 1| > 1e-9\<close>. A release build returns a rotation for
  every input, and a unit axis gives a rotation in every build.
\<close>

theorem rodriguez_domain_error_iff:
  "(rodriguez NDEBUG w theta = Inl domain_error \<longleftrightarrow>
      \<not> NDEBUG \<and> \<bar>v0 w * v0 w + v1 w * v1 w + v2 w * v2 w - 1\<bar> > 1 / 10 ^ 9) \<and>
   rodriguez NDEBUG w theta \<noteq> Inl invalid_argument \<and>
   (\<exists>R. rodriguez True w theta = Inr R) \<and>
   (v0 w * v0 w + v1 w * v1 w + v2 w * v2 w = 1 \<longrightarrow> (\<exists>R. rodriguez NDEBUG w theta = Inr R))"
  by (simp add: rodriguez_def Let_def)

theorem rodriguez_domain_error_iff_witness:
  "rodriguez False (Vector_3 0 0 2) 0 = Inl domain_error \<and>
   (\<exists>R. rodriguez True (Vector_3 0 0 2) 0 = Inr R) \<and>
   (\<exists>R. rodriguez False (Vector_3 0 0 1) 0 = Inr R)"
  using rodriguez_domain_error_iff [of False "Vector_3 0 0 2" 0]
    rodriguez_domain_error_iff [of False "Vector_3 0 0 1" 0]
  by simp

section \<open>Logmap at a half turn\<close>

lemma Logmap_pi_branch:
  "\<bar>trace (matrix R) + 1\<bar> < 1 / 10 ^ 10 \<Longrightarrow>
     Logmap R = Vector_times (pi / Logmap_pi_divisor R) (Logmap_pi_column R)"
  by (simp add: Logmap_def Logmap_pi_divisor_def Logmap_pi_column_def trace_def matrix_def Let_def)

text \<open>
  C4: when the trace is within \<open>1e-10\<close> of \<open>-1\<close>, \<^verbatim>\<open>Logmap\<close> takes the first of
  \<open>R33\<close>, \<open>R22\<close> that is more than \<open>1e-10\<close> away from \<open>-1\<close>, else \<open>R11\<close>, and
  returns the corresponding column of \<open>I + R\<close> scaled by \<open>\<pi> / \<surd>(2 + 2 R\<^sub>i\<^sub>i)\<close>.
  \<^verbatim>\<open>rodriguez((0,0,1), \<pi>)\<close> is \<open>diag(-1, -1, 1)\<close> in either build, and its \<^verbatim>\<open>Logmap\<close>
  is the \<open>R33\<close> branch's \<open>(0, 0, \<pi>)\<close>.
\<close>

theorem Logmap_pi_branch_priority:
  "(\<bar>trace (matrix R) + 1\<bar> < 1 / 10 ^ 10 \<longrightarrow>
     Logmap R =
       (if \<bar>m22 (matrix R) + 1\<bar> > 1 / 10 ^ 10 then
          Vector_times (pi / sqrt (2 + 2 * m22 (matrix R))) (Matrix_column (Matrix_plus I3 (matrix R)) 2)
        else if \<bar>m11 (matrix R) + 1\<bar> > 1 / 10 ^ 10 then
          Vector_times (pi / sqrt (2 + 2 * m11 (matrix R))) (Matrix_column (Matrix_plus I3 (matrix R)) 1)
        else
          Vector_times (pi / sqrt (2 + 2 * m00 (matrix R))) (Matrix_column (Matrix_plus I3 (matrix R)) 0))) \<and>
   rodriguez NDEBUG (Vector_3 0 0 1) pi = Inr (Rot3_entries (- 1) 0 0  0 (- 1) 0  0 0 1) \<and>
   Logmap (Rot3_entries (- 1) 0 0  0 (- 1) 0  0 0 1) = Vector_3 0 0 pi"
proof (intro conjI impI)
  assume "\<bar>trace (matrix R) + 1\<bar> < 1 / 10 ^ 10"
  then show "Logmap R =
       (if \<bar>m22 (matrix R) + 1\<bar> > 1 / 10 ^ 10 then
          Vector_times (pi / sqrt (2 + 2 * m22 (matrix R))) (Matrix_column (Matrix_plus I3 (matrix R)) 2)
        else if \<bar>m11 (matrix R) + 1\<bar> > 1 / 10 ^ 10 then
          Vector_times (pi / sqrt (2 + 2 * m11 (matrix R))) (Matrix_column (Matrix_plus I3 (matrix R)) 1)
        else
          Vector_times (pi / sqrt (2 + 2 * m00 (matrix R))) (Matrix_column (Matrix_plus I3 (matrix R)) 0))"
    by (simp add: Logmap_def trace_def matrix_def Let_def Matrix_column_def Matrix_plus_def I3_def)
next
  show "rodriguez NDEBUG (Vector_3 0 0 1) pi = Inr (Rot3_entries (- 1) 0 0  0 (- 1) 0  0 0 1)"
    by (simp add: rodriguez_def Let_def)
next
  show "Logmap (Rot3_entries (- 1) 0 0  0 (- 1) 0  0 0 1) = Vector_3 0 0 pi"
    by (simp add: Logmap_def Rot3_entries_def Let_def Vector_times_def)
qed

theorem Logmap_pi_branch_priority_witness:
  "Logmap (Rot3_entries (- 1) 0 0  0 (- 1) 0  0 0 1) = Vector_3 0 0 pi \<and>
   Logmap (Rot3_entries (- 1) 0 0  0 1 0  0 0 (- 1)) = Vector_3 0 pi 0 \<and>
   Logmap (Rot3_entries 1 0 0  0 (- 1) 0  0 0 (- 1)) = Vector_3 pi 0 0"
  using Logmap_pi_branch_priority [of "Rot3_entries (- 1) 0 0  0 (- 1) 0  0 0 1" True]
    Logmap_pi_branch_priority [of "Rot3_entries (- 1) 0 0  0 1 0  0 0 (- 1)" True]
    Logmap_pi_branch_priority [of "Rot3_entries 1 0 0  0 (- 1) 0  0 0 (- 1)" True]
  by (simp add: trace_def matrix_def Rot3_entries_def Matrix_column_def Matrix_plus_def I3_def
        Vector_times_def)

lemma orthonormal_diag_bounds:
  assumes "orthonormal R"
  shows "- 1 \<le> p_x (r1 R)" "- 1 \<le> p_y (r2 R)" "- 1 \<le> p_z (r3 R)"
proof -
  have c1: "p_x (r1 R) * p_x (r1 R) + p_y (r1 R) * p_y (r1 R) + p_z (r1 R) * p_z (r1 R) = 1"
   and c2: "p_x (r2 R) * p_x (r2 R) + p_y (r2 R) * p_y (r2 R) + p_z (r2 R) * p_z (r2 R) = 1"
   and c3: "p_x (r3 R) * p_x (r3 R) + p_y (r3 R) * p_y (r3 R) + p_z (r3 R) * p_z (r3 R) = 1"
    using assms by (simp_all add: orthonormal_def Matrix_times_def transpose_Rot3_def matrix_def I3_def)
  have sq: "a * a + b * b + c * c = 1 \<Longrightarrow> - 1 \<le> a \<and> - 1 \<le> b \<and> - 1 \<le> c" for a b c :: real
  proof -
    assume h: "a * a + b * b + c * c = 1"
    have "0 \<le> a * a" "0 \<le> b * b" "0 \<le> c * c" by simp_all
    with h have "a * a \<le> 1" "b * b \<le> 1" "c * c \<le> 1" by linarith+
    then have "\<bar>a\<bar> \<le> 1" "\<bar>b\<bar> \<le> 1" "\<bar>c\<bar> \<le> 1"
      by (simp_all add: abs_le_square_iff [of _ 1, simplified] power2_eq_square)
    then show ?thesis by linarith
  qed
  show "- 1 \<le> p_x (r1 R)" using sq [OF c1] by simp
  show "- 1 \<le> p_y (r2 R)" using sq [OF c2] by simp
  show "- 1 \<le> p_z (r3 R)" using sq [OF c3] by simp
qed

lemma sqrt_gt_small: "1 / 10 ^ 10 < t \<Longrightarrow> 1 / 10 ^ 5 < sqrt (2 + 2 * (t - 1))" for t :: real
proof -
  assume h: "1 / 10 ^ 10 < t"
  have "(1 / 10 ^ 5)\<^sup>2 < 2 + 2 * (t - 1)" using h by (simp add: power2_eq_square)
  then show ?thesis by (rule real_less_rsqrt)
qed

text \<open>
  C9: for an orthonormal \<open>R\<close> whose trace is within \<open>1e-10\<close> of \<open>-1\<close>, \<^verbatim>\<open>Logmap\<close>
  returns \<open>\<pi>\<close> over the divisor of the selected branch times that branch's column,
  and the divisor is larger than \<open>1e-5\<close>: the two guarded branches because of their
  guard, and the final branch because the failed guards and the trace force \<open>R11\<close>
  within \<open>3e-10\<close> of \<open>1\<close>, where the divisor exceeds 1.
\<close>

theorem Logmap_pi_divisor_bounded:
  assumes "orthonormal R" and "\<bar>trace (matrix R) + 1\<bar> < 1 / 10 ^ 10"
  shows "Logmap R = Vector_times (pi / Logmap_pi_divisor R) (Logmap_pi_column R) \<and>
         1 / 10 ^ 5 < Logmap_pi_divisor R \<and>
         (\<not> \<bar>p_z (r3 R) + 1\<bar> > 1 / 10 ^ 10 \<and> \<not> \<bar>p_y (r2 R) + 1\<bar> > 1 / 10 ^ 10 \<longrightarrow>
            \<bar>p_x (r1 R) - 1\<bar> < 3 / 10 ^ 10 \<and> 1 < Logmap_pi_divisor R)"
proof (intro conjI impI)
  show "Logmap R = Vector_times (pi / Logmap_pi_divisor R) (Logmap_pi_column R)"
    using assms(2) by (rule Logmap_pi_branch)
next
  note b = orthonormal_diag_bounds [OF assms(1)]
  have tr: "\<bar>p_x (r1 R) + p_y (r2 R) + p_z (r3 R) + 1\<bar> < 1 / 10 ^ 10"
    using assms(2) by (simp add: trace_def matrix_def)
  show "1 / 10 ^ 5 < Logmap_pi_divisor R"
  proof (cases "\<bar>p_z (r3 R) + 1\<bar> > 1 / 10 ^ 10")
    case True
    then have "1 / 10 ^ 10 < p_z (r3 R) + 1" using b(3) by linarith
    from sqrt_gt_small [OF this] True show ?thesis by (simp add: Logmap_pi_divisor_def)
  next
    case z: False
    show ?thesis
    proof (cases "\<bar>p_y (r2 R) + 1\<bar> > 1 / 10 ^ 10")
      case True
      then have "1 / 10 ^ 10 < p_y (r2 R) + 1" using b(2) by linarith
      from sqrt_gt_small [OF this] True z show ?thesis by (simp add: Logmap_pi_divisor_def)
    next
      case y: False
      have "1 / 10 ^ 10 < p_x (r1 R) + 1" using tr y z by (simp add: abs_if split: if_splits)
      from sqrt_gt_small [OF this] y z show ?thesis by (simp add: Logmap_pi_divisor_def)
    qed
  qed
next
  assume h: "\<not> \<bar>p_z (r3 R) + 1\<bar> > 1 / 10 ^ 10 \<and> \<not> \<bar>p_y (r2 R) + 1\<bar> > 1 / 10 ^ 10"
  have tr: "\<bar>p_x (r1 R) + p_y (r2 R) + p_z (r3 R) + 1\<bar> < 1 / 10 ^ 10"
    using assms(2) by (simp add: trace_def matrix_def)
  show "\<bar>p_x (r1 R) - 1\<bar> < 3 / 10 ^ 10" using tr h by (simp add: abs_if split: if_splits)
next
  assume h: "\<not> \<bar>p_z (r3 R) + 1\<bar> > 1 / 10 ^ 10 \<and> \<not> \<bar>p_y (r2 R) + 1\<bar> > 1 / 10 ^ 10"
  have tr: "\<bar>p_x (r1 R) + p_y (r2 R) + p_z (r3 R) + 1\<bar> < 1 / 10 ^ 10"
    using assms(2) by (simp add: trace_def matrix_def)
  have "1\<^sup>2 < 2 + 2 * p_x (r1 R)" using tr h by (simp add: abs_if split: if_splits)
  then have "1 < sqrt (2 + 2 * p_x (r1 R))" by (rule real_less_rsqrt)
  then show "1 < Logmap_pi_divisor R" using h by (simp add: Logmap_pi_divisor_def)
qed

theorem Logmap_pi_divisor_bounded_witness:
  "orthonormal (Rot3_entries 1 0 0  0 (- 1) 0  0 0 (- 1)) \<and>
   \<bar>trace (matrix (Rot3_entries 1 0 0  0 (- 1) 0  0 0 (- 1))) + 1\<bar> < 1 / 10 ^ 10 \<and>
   Logmap_pi_divisor (Rot3_entries 1 0 0  0 (- 1) 0  0 0 (- 1)) = 2 \<and>
   1 / 10 ^ 5 < Logmap_pi_divisor (Rot3_entries 1 0 0  0 (- 1) 0  0 0 (- 1)) \<and>
   Logmap (Rot3_entries 1 0 0  0 (- 1) 0  0 0 (- 1)) = Vector_3 pi 0 0"
proof -
  have r: "orthonormal (Rot3_entries 1 0 0  0 (- 1) 0  0 0 (- 1))"
    by (simp add: orthonormal_def Rot3_entries_def Matrix_times_def transpose_Rot3_def matrix_def
          I3_def)
  have t: "\<bar>trace (matrix (Rot3_entries 1 0 0  0 (- 1) 0  0 0 (- 1))) + 1\<bar> < 1 / 10 ^ 10"
    by (simp add: trace_def matrix_def Rot3_entries_def)
  have d: "Logmap_pi_divisor (Rot3_entries 1 0 0  0 (- 1) 0  0 0 (- 1)) = 2"
    by (simp add: Logmap_pi_divisor_def Rot3_entries_def)
  have c: "Logmap_pi_column (Rot3_entries 1 0 0  0 (- 1) 0  0 0 (- 1)) = Vector_3 2 0 0"
    by (simp add: Logmap_pi_column_def Rot3_entries_def)
  show ?thesis
    using Logmap_pi_divisor_bounded [OF r t] r t
    by (simp add: d c Vector_times_def)
qed

section \<open>Algebra of the charts\<close>

lemma Rot3_Matrix_matrix: "Rot3_Matrix (matrix R) = R"
  by (cases R; cases "r1 R"; cases "r2 R"; cases "r3 R") (simp add: Rot3_Matrix_def matrix_def)

lemma matrix_Rot3_Matrix: "matrix (Rot3_Matrix A) = A"
  by (cases A) (simp add: Rot3_Matrix_def matrix_def)

lemma matrix_Rot3_times: "matrix (Rot3_times A B) = Matrix_times (matrix A) (matrix B)"
  by (simp add: Rot3_times_def rotate_Rot3_def matrix_def Matrix_times_def Point3_plus_def
        Point3_times_def Let_def mult.commute)

lemma matrix_inverse_Rot3: "matrix (fst (inverse_Rot3 R H)) = transpose_Rot3 R"
  by (simp add: inverse_Rot3_def Rot3_entries_def matrix_def transpose_Rot3_def Let_def)

lemma matrix_Rot3_identity: "matrix Rot3_identity = I3"
  by (simp add: Rot3_identity_def matrix_def I3_def)

lemma between_retract:
  assumes "is_rotation R"
  shows "fst (between R (Rot3_times R D) None None) = D"
proof -
  have "matrix (fst (between R (Rot3_times R D) None None))
      = Matrix_times (Matrix_times (transpose_Rot3 R) (matrix R)) (matrix D)"
    by (simp add: between_def between_default_def matrix_Rot3_times matrix_inverse_Rot3
          Matrix_times_assoc)
  also have "\<dots> = matrix D"
    using assms by (simp add: is_rotation_def orthonormal_def Matrix_times_I3_left)
  finally have "Rot3_Matrix (matrix (fst (between R (Rot3_times R D) None None))) = Rot3_Matrix (matrix D)"
    by simp
  then show ?thesis by (simp only: Rot3_Matrix_matrix)
qed

lemma caley_x:
  fixes x y z f :: real
  assumes fn: "f * (4 + x * x + y * y + z * z) = 1"
  shows "((4 + x * x - y * y - z * z) * f) * ((y * z - 2 * x) * (2 * f))
          - ((x * z + 2 * y) * (2 * f)) * ((x * y + 2 * z) * (2 * f))
          + (y * z - 2 * x) * (2 * f) = - 8 * x * f"
  using fn by algebra

lemma caley_y:
  fixes x y z f :: real
  assumes fn: "f * (4 + x * x + y * y + z * z) = 1"
  shows "((x * y - 2 * z) * (2 * f)) * ((y * z - 2 * x) * (2 * f))
          - ((x * z + 2 * y) * (2 * f)) * ((4 - x * x + y * y - z * z) * f)
          - (x * z + 2 * y) * (2 * f) = - 8 * y * f"
  using fn by algebra

lemma caley_z:
  fixes x y z f :: real
  assumes fn: "f * (4 + x * x + y * y + z * z) = 1"
  shows "((y * z - 2 * x) * (2 * f)) * ((x * z - 2 * y) * (2 * f))
          - ((x * y + 2 * z) * (2 * f)) * ((4 - x * x - y * y + z * z) * f)
          - (x * y + 2 * z) * (2 * f) = - 8 * z * f"
  using fn by algebra

lemma caley_D:
  fixes x y z f :: real
  assumes fn: "f * (4 + x * x + y * y + z * z) = 1"
  defines "a \<equiv> (4 + x * x - y * y - z * z) * f" and "b \<equiv> (x * y - 2 * z) * (2 * f)"
    and "c \<equiv> (x * z + 2 * y) * (2 * f)" and "d \<equiv> (x * y + 2 * z) * (2 * f)"
    and "e \<equiv> (4 - x * x + y * y - z * z) * f" and "f' \<equiv> (y * z - 2 * x) * (2 * f)"
    and "g \<equiv> (x * z - 2 * y) * (2 * f)" and "h \<equiv> (y * z + 2 * x) * (2 * f)"
    and "i \<equiv> (4 - x * x - y * y + z * z) * f"
  shows "(c * d) * h + (1 + e - f' * h + i + e * i) + a * (1 + e - f' * h + i + e * i)
           - g * (c + c * e) - b * (d + d * i - f' * g) = 32 * f"
  unfolding a_def b_def c_def d_def e_def f'_def g_def h_def i_def
  using fn by algebra

lemma caley_f:
  fixes x y z :: real
  shows "(1 / (4 + x * x + y * y + z * z)) * (4 + x * x + y * y + z * z) = 1"
proof -
  have "0 \<le> x * x" "0 \<le> y * y" "0 \<le> z * z" by simp_all
  then have "0 < 4 + x * x + y * y + z * z" by linarith
  then show ?thesis by simp
qed

lemma Cayley_skew:
  fixes x y z f :: real
  assumes fn: "f * (4 + x * x + y * y + z * z) = 1"
  shows "Cayley (Matrix_divide (Matrix_uminus (skewSymmetric x y z)) 2) = caley_matrix f x y z"
proof -
  have f0: "f \<noteq> 0" using fn by auto
  have n: "4 + x * x + y * y + z * z = 1 / f" using fn f0 by (simp add: field_simps)
  have "determinant (Matrix_plus I3 (Matrix_divide (Matrix_uminus (skewSymmetric x y z)) 2))
      = (4 + x * x + y * y + z * z) / 4"
    by (simp add: determinant_def Matrix_plus_def I3_def Matrix_divide_def Matrix_uminus_def
          skewSymmetric_def field_simps)
  then have d: "1 / determinant (Matrix_plus I3 (Matrix_divide (Matrix_uminus (skewSymmetric x y z)) 2))
      = 4 * f"
    by (simp add: n)
  show ?thesis
    apply (simp only: Cayley_def Matrix_inverse_def Let_def d)
    apply (simp add: caley_matrix_def Matrix_times_def Matrix_minus_def Matrix_plus_def I3_def
        Matrix_divide_def Matrix_uminus_def skewSymmetric_def)
    apply (intro conjI)
            apply (simp_all add: field_simps)
    done
qed

lemma det_caley:
  fixes x y z f :: real
  assumes fn: "f * (4 + x * x + y * y + z * z) = 1"
  shows "determinant (Matrix_plus I3 (caley_matrix f x y z)) = 32 * f"
  apply (simp add: determinant_def Matrix_plus_def I3_def caley_matrix_def)
  using fn apply algebra
  done

lemma Cayley_caley_matrix:
  fixes x y z f :: real
  assumes fn: "f * (4 + x * x + y * y + z * z) = 1"
  shows "Cayley (caley_matrix f x y z) = Matrix_divide (Matrix_uminus (skewSymmetric x y z)) 2"
proof -
  have f0: "f \<noteq> 0" using fn by auto
  have n: "4 + x * x + y * y + z * z = 1 / f" using fn f0 by (simp add: field_simps)
  define k where "k = (4 + x * x + y * y + z * z) / 32"
  have d: "1 / determinant (Matrix_plus I3 (caley_matrix f x y z)) = k"
    by (simp add: det_caley [OF fn] k_def n)
  have kf: "32 * k * f = 1" using fn by (simp add: k_def algebra_simps)
  have kn: "32 * k = 4 + x * x + y * y + z * z" by (simp add: k_def)
  show ?thesis
    apply (simp only: Cayley_def Matrix_inverse_def Let_def d)
    apply (simp add: caley_matrix_def Matrix_times_def Matrix_minus_def Matrix_plus_def I3_def
        Matrix_divide_def Matrix_uminus_def skewSymmetric_def)
    apply (insert kf kn, intro conjI)
    apply algebra+
    done
qed

lemma Rot3_entries_Matrix:
  "Rot3_entries a b c d e f g h i = Rot3_Matrix (Matrix a b c d e f g h i)"
  by (simp add: Rot3_entries_def Rot3_Matrix_def)

lemma retract_CALEY:
  "retract NDEBUG R omega CALEY =
     Inr (Rot3_times R (Rot3_Matrix (caley_matrix
        (1 / (4 + v0 omega * v0 omega + v1 omega * v1 omega + v2 omega * v2 omega))
        (v0 omega) (v1 omega) (v2 omega))))"
  by (simp add: retract_def Let_def Rot3_entries_Matrix caley_matrix_def)

lemma retract_SLOW_CALEY:
  "retract NDEBUG R omega SLOW_CALEY =
     Inr (Rot3_times R (Rot3_Matrix (caley_matrix
        (1 / (4 + v0 omega * v0 omega + v1 omega * v1 omega + v2 omega * v2 omega))
        (v0 omega) (v1 omega) (v2 omega))))"
  by (simp only: retract_def CoordinatesMode.case Let_def skewSymmetric_Vector_def
        Cayley_skew [OF caley_f])

lemma localCoordinates_CALEY:
  assumes A: "matrix (fst (between R T None None)) = caley_matrix f x y z"
    and fn: "f * (4 + x * x + y * y + z * z) = 1"
  shows "localCoordinates R T CALEY = Vector_3 x y z"
proof -
  have f0: "f \<noteq> 0" using fn by auto
  show ?thesis
    apply (simp only: localCoordinates_def CoordinatesMode.case Let_def A)
    apply (simp only: caley_matrix_def Matrix.sel caley_x [OF fn] caley_y [OF fn] caley_z [OF fn]
        caley_D [OF fn])
    using f0 apply (simp add: Vector_times_def)
    done
qed

lemma localCoordinates_SLOW_CALEY:
  assumes A: "matrix (fst (between R T None None)) = caley_matrix f x y z"
    and fn: "f * (4 + x * x + y * y + z * z) = 1"
  shows "localCoordinates R T SLOW_CALEY = Vector_3 x y z"
  apply (simp only: localCoordinates_def CoordinatesMode.case Let_def A Cayley_caley_matrix [OF fn])
  apply (simp add: Vector_times_def Matrix_divide_def Matrix_uminus_def skewSymmetric_def)
  done

lemma Cayley_roundtrip:
  assumes "is_rotation R" and "mode = CALEY \<or> mode = SLOW_CALEY"
  shows "localCoordinates_retract NDEBUG R omega mode = Inr omega"
proof -
  let ?f = "1 / (4 + v0 omega * v0 omega + v1 omega * v1 omega + v2 omega * v2 omega)"
  let ?D = "Rot3_Matrix (caley_matrix ?f (v0 omega) (v1 omega) (v2 omega))"
  have A: "matrix (fst (between R (Rot3_times R ?D) None None))
      = caley_matrix ?f (v0 omega) (v1 omega) (v2 omega)"
    by (simp only: between_retract [OF assms(1)] matrix_Rot3_Matrix)
  from assms(2) show ?thesis
  proof
    assume m: "mode = CALEY"
    show ?thesis
      by (simp add: m localCoordinates_retract_def retract_CALEY
            localCoordinates_CALEY [OF A caley_f])
  next
    assume m: "mode = SLOW_CALEY"
    show ?thesis
      by (simp add: m localCoordinates_retract_def retract_SLOW_CALEY
            localCoordinates_SLOW_CALEY [OF A caley_f])
  qed
qed

section \<open>Logmap after rodriguez\<close>

lemma one_minus_cos_le: "1 - cos x \<le> x * x / 2" for x :: real
proof -
  have "cos x = 1 - 2 * (sin (x / 2))\<^sup>2"
    using cos_double_sin [of "x / 2"] by simp
  moreover have "(sin (x / 2))\<^sup>2 \<le> (x / 2)\<^sup>2"
    using abs_sin_x_le_abs_x [of "x / 2"] by (simp only: abs_le_square_iff [symmetric])
  ultimately show ?thesis by (simp add: power2_eq_square)
qed

lemma x_cos_le_sin:
  fixes x :: real
  assumes "0 \<le> x" and "x \<le> pi"
  shows "x * cos x \<le> sin x"
proof -
  have "sin 0 - 0 * cos 0 \<le> sin x - x * cos x"
  proof (rule DERIV_nonneg_imp_nondecreasing [OF assms(1)])
    fix t :: real
    assume t: "0 \<le> t" "t \<le> x"
    have "((\<lambda>u. sin u - u * cos u) has_real_derivative (t * sin t)) (at t)"
      by (auto intro!: derivative_eq_intros)
    moreover have "0 \<le> t * sin t"
      using t assms(2) by (intro mult_nonneg_nonneg sin_ge_zero) auto
    ultimately show "\<exists>y. ((\<lambda>u. sin u - u * cos u) has_real_derivative y) (at t) \<and> 0 \<le> y"
      by blast
  qed
  then show ?thesis by simp
qed

lemma small_angle_pos:
  fixes t :: real
  assumes t0: "0 \<le> t" and tpi: "t < pi" and c: "- (1 / 10 ^ 7) \<le> 2 * cos t - 2"
  shows "\<bar>(1 / 2 - (2 * cos t - 2) * (2 * cos t - 2) / 12) * (2 * sin t) - t\<bar> \<le> 1 / 10 ^ 10"
proof -
  define co where "co = cos t"
  define s where "s = sin t"
  have co1: "co \<le> 1" by (simp add: co_def)
  have colo: "1 - 5 / 10 ^ 8 \<le> co" using c by (simp add: co_def)
  have s0: "0 \<le> s" unfolding s_def using t0 tpi by (intro sin_ge_zero) auto
  have sc: "s * s + co * co = 1"
    unfolding s_def co_def using sin_cos_squared_add [of t] by (simp add: power2_eq_square)
  have "s * s = (1 - co) * (1 + co)" using sc by (simp add: algebra_simps)
  also have "\<dots> \<le> (5 / 10 ^ 8) * 2"
    using co1 colo by (intro mult_mono) auto
  finally have ss: "s * s \<le> 1 / 10 ^ 7" by simp
  have s_hi: "s \<le> 1 / 3000"
  proof (rule ccontr)
    assume "\<not> s \<le> 1 / 3000"
    then have "1 / 3000 < s" by simp
    then have "(1 / 3000) * (1 / 3000) < s * s"
      by (intro mult_strict_mono) auto
    with ss show False by simp
  qed
  have st: "s \<le> t" unfolding s_def using t0 by (rule sin_x_le_x)
  have "t * co \<le> s" unfolding s_def co_def using t0 tpi by (intro x_cos_le_sin) auto
  moreover have "t * (1 / 2) \<le> t * co" using colo t0 by (intro mult_left_mono) auto
  ultimately have t_hi: "t \<le> 2 * s" by simp
  have "t - s = t * (1 - co) + (t * co - s)" by (simp add: algebra_simps)
  also have "\<dots> \<le> t * (1 - co)" using \<open>t * co \<le> s\<close> by simp
  also have "\<dots> \<le> (2 / 3000) * (5 / 10 ^ 8)"
    using t_hi s_hi t0 co1 colo by (intro mult_mono) auto
  finally have ts: "t - s \<le> 1 / 10 ^ 10 / 2" by simp
  have q0: "0 \<le> (2 * co - 2) * (2 * co - 2)" by simp
  have "(2 * co - 2) * (2 * co - 2) = (2 - 2 * co) * (2 - 2 * co)" by (simp add: algebra_simps)
  also have "\<dots> \<le> (1 / 10 ^ 7) * (1 / 10 ^ 7)"
    using co1 colo by (intro mult_mono) auto
  finally have q1: "(2 * co - 2) * (2 * co - 2) \<le> 1 / 10 ^ 14" by simp
  define q where "q = (2 * co - 2) * (2 * co - 2) * s"
  have "q \<le> (1 / 10 ^ 14) * (1 / 3000)"
    unfolding q_def using q0 q1 s0 s_hi by (intro mult_mono) auto
  then have q2: "q \<le> 1 / 10 ^ 10" by simp
  have q3: "0 \<le> q" unfolding q_def using q0 s0 by (rule mult_nonneg_nonneg)
  have e: "(1 / 2 - (2 * co - 2) * (2 * co - 2) / 12) * (2 * s) - t = - (t - s) - q / 6"
    by (simp add: q_def field_simps)
  have "- (t - s) - q / 6 \<le> 1 / 10 ^ 10" using st q3 by simp
  moreover have "- (1 / 10 ^ 10) \<le> - (t - s) - q / 6" using ts q2 by simp
  ultimately have "\<bar>- (t - s) - q / 6\<bar> \<le> 1 / 10 ^ 10" by (simp only: abs_le_iff) simp
  then have "\<bar>(1 / 2 - (2 * co - 2) * (2 * co - 2) / 12) * (2 * s) - t\<bar> \<le> 1 / 10 ^ 10"
    by (simp only: e)
  then show ?thesis by (simp add: co_def s_def)
qed

lemma small_angle:
  fixes t :: real
  assumes tpi: "\<bar>t\<bar> < pi" and c: "- (1 / 10 ^ 7) \<le> 2 * cos t - 2"
  shows "\<bar>(1 / 2 - (2 * cos t - 2) * (2 * cos t - 2) / 12) * (2 * sin t) - t\<bar> \<le> 1 / 10 ^ 10"
proof (cases "0 \<le> t")
  case True
  then show ?thesis using small_angle_pos [of t] tpi c by simp
next
  case False
  then have "0 \<le> - t" "- t < pi" using tpi by auto
  from small_angle_pos [OF this] c
  have "\<bar>(1 / 2 - (2 * cos t - 2) * (2 * cos t - 2) / 12) * (2 * - sin t) - - t\<bar> \<le> 1 / 10 ^ 10"
    by simp
  moreover have "(1 / 2 - (2 * cos t - 2) * (2 * cos t - 2) / 12) * (2 * - sin t) - - t
      = - ((1 / 2 - (2 * cos t - 2) * (2 * cos t - 2) / 12) * (2 * sin t) - t)"
    by (simp add: field_simps)
  ultimately show ?thesis by (simp only: abs_minus_cancel)
qed

lemma generic_angle:
  fixes t :: real
  assumes tpi: "\<bar>t\<bar> < pi" and c: "2 * cos t - 2 < - (1 / 10 ^ 7)"
  shows "arccos (cos t) / (2 * sin (arccos (cos t))) * (2 * sin t) = t"
proof -
  have ne: "cos t \<noteq> 1" using c by auto
  then have t0: "t \<noteq> 0" by auto
  show ?thesis
  proof (cases "0 \<le> t")
    case True
    then have "0 < t" using t0 by simp
    then have "0 < sin t" using tpi by (intro sin_gt_zero) auto
    moreover have "arccos (cos t) = t" using True tpi by (intro arccos_cos) auto
    ultimately show ?thesis by simp
  next
    case False
    then have "0 < - t" "- t < pi" using tpi by auto
    then have "0 < sin (- t)" by (rule sin_gt_zero)
    then have "sin t \<noteq> 0" by simp
    moreover have "arccos (cos t) = - t" using False tpi by (intro arccos_cos2) auto
    ultimately show ?thesis by simp
  qed
qed

lemma Logmap_identity: "Logmap Rot3_identity = Vector_3 0 0 0"
  by (simp add: Logmap_def Rot3_identity_def Let_def Vector_times_def)

lemma unit_component_le:
  fixes a b c :: real
  assumes "a * a + b * b + c * c = 1"
  shows "\<bar>a\<bar> \<le> 1" "\<bar>b\<bar> \<le> 1" "\<bar>c\<bar> \<le> 1"
proof -
  have "0 \<le> a * a" "0 \<le> b * b" "0 \<le> c * c" by simp_all
  with assms have "a * a \<le> 1" "b * b \<le> 1" "c * c \<le> 1" by linarith+
  then show "\<bar>a\<bar> \<le> 1" "\<bar>b\<bar> \<le> 1" "\<bar>c\<bar> \<le> 1"
    by (simp_all add: abs_le_square_iff [of _ 1, simplified] power2_eq_square)
qed

lemma scaled_error:
  fixes a m s t :: real
  assumes "\<bar>a\<bar> \<le> 1" and "\<bar>m * (2 * s) - t\<bar> \<le> e"
  shows "\<bar>m * (2 * (a * s)) - t * a\<bar> \<le> e"
proof -
  have "m * (2 * (a * s)) - t * a = a * (m * (2 * s) - t)" by (simp add: algebra_simps)
  then have "\<bar>m * (2 * (a * s)) - t * a\<bar> = \<bar>a\<bar> * \<bar>m * (2 * s) - t\<bar>"
    by (simp add: abs_mult)
  also have "\<dots> \<le> 1 * e"
    using assms by (intro mult_mono) auto
  finally show ?thesis by simp
qed

lemma Logmap_rodriguez_core:
  assumes unit: "v0 w * v0 w + v1 w * v1 w + v2 w * v2 w = 1" and th: "\<bar>theta\<bar> < pi"
  shows "\<exists>R. rodriguez NDEBUG w theta = Inr R \<and> trace (matrix R) = 1 + 2 * cos theta \<and>
     (\<not> \<bar>trace (matrix R) + 1\<bar> < 1 / 10 ^ 10 \<longrightarrow>
        equal_with_abs_tol_Vector (Logmap R) (Vector_times theta w) (1 / 10 ^ 10) \<and>
        (trace (matrix R) - 3 < - (1 / 10 ^ 7) \<longrightarrow> Logmap R = Vector_times theta w))"
proof -
  define c where "c = cos theta"
  define s where "s = sin theta"
  define R where "R = Rot3_entries
     (c + (1 - c) * (v0 w * v0 w)) (- (v2 w * s) + (1 - c) * v0 w * v1 w) (v1 w * s + (1 - c) * v0 w * v2 w)
     (v2 w * s + (1 - c) * v0 w * v1 w) (c + (1 - c) * (v1 w * v1 w)) (- (v0 w * s) + (1 - c) * v1 w * v2 w)
     (- (v1 w * s) + (1 - c) * v0 w * v2 w) (v0 w * s + (1 - c) * v1 w * v2 w) (c + (1 - c) * (v2 w * v2 w))"
  have r: "rodriguez NDEBUG w theta = Inr R"
    by (simp add: rodriguez_def Let_def unit R_def c_def s_def)
  have "p_x (r1 R) + p_y (r2 R) + p_z (r3 R)
      = 3 * c + (1 - c) * (v0 w * v0 w + v1 w * v1 w + v2 w * v2 w)"
    by (simp add: R_def Rot3_entries_def algebra_simps)
  then have tr: "p_x (r1 R) + p_y (r2 R) + p_z (r3 R) = 1 + 2 * c"
    by (simp add: unit)
  have tm: "trace (matrix R) = 1 + 2 * c"
    using tr by (simp add: trace_def matrix_def)
  have d: "p_z (r2 R) - p_y (r3 R) = 2 * (v0 w * s)"
      "p_x (r3 R) - p_z (r1 R) = 2 * (v1 w * s)"
      "p_y (r1 R) - p_x (r2 R) = 2 * (v2 w * s)"
    by (simp_all add: R_def Rot3_entries_def)
  note u = unit_component_le [OF unit]
  have main: "equal_with_abs_tol_Vector (Logmap R) (Vector_times theta w) (1 / 10 ^ 10) \<and>
        (trace (matrix R) - 3 < - (1 / 10 ^ 7) \<longrightarrow> Logmap R = Vector_times theta w)"
    if npi: "\<not> \<bar>trace (matrix R) + 1\<bar> < 1 / 10 ^ 10"
  proof (cases "2 * c - 2 < - (1 / 10 ^ 7)")
    case True
    define m where "m = arccos c / (2 * sin (arccos c))"
    have g: "m * (2 * s) = theta"
      unfolding m_def s_def c_def using th True by (intro generic_angle) (simp_all add: c_def)
    have L: "Logmap R = Vector_times m (Vector_3 (2 * (v0 w * s)) (2 * (v1 w * s)) (2 * (v2 w * s)))"
      using npi True by (simp add: Logmap_def Let_def tr tm d m_def)
    have "m * (2 * (a * s)) = theta * a" for a
    proof -
      have "m * (2 * (a * s)) = a * (m * (2 * s))" by (simp add: algebra_simps)
      then show ?thesis by (simp add: g)
    qed
    then have "Logmap R = Vector_times theta w"
      by (simp add: L Vector_times_def)
    then show ?thesis by (simp add: equal_with_abs_tol_Vector_def)
  next
    case False
    define m where "m = 1 / 2 - (2 * c - 2) * (2 * c - 2) / 12"
    have g: "\<bar>m * (2 * s) - theta\<bar> \<le> 1 / 10 ^ 10"
      unfolding m_def s_def c_def using th False by (intro small_angle) (simp_all add: c_def)
    have L: "Logmap R = Vector_times m (Vector_3 (2 * (v0 w * s)) (2 * (v1 w * s)) (2 * (v2 w * s)))"
      using npi False by (simp add: Logmap_def Let_def tr tm d m_def)
    have "equal_with_abs_tol_Vector (Logmap R) (Vector_times theta w) (1 / 10 ^ 10)"
      using scaled_error [OF u(1) g] scaled_error [OF u(2) g] scaled_error [OF u(3) g]
      by (simp add: L Vector_times_def equal_with_abs_tol_Vector_def)
    then show ?thesis using False by (simp add: tm)
  qed
  show ?thesis
    using r tm main by (auto simp: c_def)
qed

lemma norm_Vector_nonneg: "0 \<le> norm_Vector v"
  by (simp add: norm_Vector_def)

lemma norm_Vector_square:
  "norm_Vector v * norm_Vector v = v0 v * v0 v + v1 v * v1 v + v2 v * v2 v"
  by (simp add: norm_Vector_def)

lemma component_le_norm:
  "\<bar>v0 v\<bar> \<le> norm_Vector v" "\<bar>v1 v\<bar> \<le> norm_Vector v" "\<bar>v2 v\<bar> \<le> norm_Vector v"
proof -
  have s: "a * a \<le> v0 v * v0 v + v1 v * v1 v + v2 v * v2 v \<Longrightarrow> \<bar>a\<bar> \<le> norm_Vector v" for a
    unfolding norm_Vector_def by (rule real_le_rsqrt) (simp add: power2_eq_square)
  have "0 \<le> v0 v * v0 v" "0 \<le> v1 v * v1 v" "0 \<le> v2 v * v2 v" by simp_all
  then show "\<bar>v0 v\<bar> \<le> norm_Vector v" "\<bar>v1 v\<bar> \<le> norm_Vector v" "\<bar>v2 v\<bar> \<le> norm_Vector v"
    by (auto intro!: s)
qed

lemma normalised_unit:
  assumes "norm_Vector v \<noteq> 0"
  shows "v0 (Vector_divide v (norm_Vector v)) * v0 (Vector_divide v (norm_Vector v))
       + v1 (Vector_divide v (norm_Vector v)) * v1 (Vector_divide v (norm_Vector v))
       + v2 (Vector_divide v (norm_Vector v)) * v2 (Vector_divide v (norm_Vector v)) = 1"
proof -
  define t where "t = norm_Vector v"
  have t: "t * t = v0 v * v0 v + v1 v * v1 v + v2 v * v2 v" "t \<noteq> 0"
    using assms by (simp_all add: t_def norm_Vector_square)
  have "v0 v / t * (v0 v / t) + v1 v / t * (v1 v / t) + v2 v / t * (v2 v / t)
      = (v0 v * v0 v + v1 v * v1 v + v2 v * v2 v) / (t * t)"
    by (simp add: add_divide_distrib)
  also have "\<dots> = (t * t) / (t * t)" by (simp only: t(1))
  also have "\<dots> = 1" using t(2) by simp
  finally show ?thesis by (simp add: Vector_divide_def t_def)
qed

lemma Vector_times_divide: "t \<noteq> 0 \<Longrightarrow> Vector_times t (Vector_divide v t) = v"
  by (cases v) (simp add: Vector_times_def Vector_divide_def)

lemma Rot3_times_identity: "Rot3_times R Rot3_identity = R"
  by (cases R; cases "r1 R"; cases "r2 R"; cases "r3 R")
     (simp add: Rot3_times_def rotate_Rot3_def Rot3_identity_def Point3_plus_def Point3_times_def
        Let_def)

lemma EXPMAP_roundtrip:
  assumes rot: "is_rotation R" and lt: "norm_Vector omega < pi"
    and far: "1 / 10 ^ 10 \<le> 2 + 2 * cos (norm_Vector omega)"
  shows "\<exists>v. localCoordinates_retract NDEBUG R omega EXPMAP = Inr v \<and>
           equal_with_abs_tol_Vector v omega (1 / 10 ^ 10) \<and>
           (2 * cos (norm_Vector omega) - 2 < - (1 / 10 ^ 7) \<longrightarrow> v = omega)"
proof (cases "norm_Vector omega < 1 / 10 ^ 10")
  case True
  have ret: "retract NDEBUG R omega EXPMAP = Inr (Rot3_times R Rot3_identity)"
    using True by (simp add: retract_def Expmap_def rodriguez_Vector_def Let_def)
  have loc: "localCoordinates R (Rot3_times R Rot3_identity) EXPMAP = Vector_3 0 0 0"
    by (simp add: localCoordinates_def between_retract [OF rot] Logmap_identity)
  have close: "equal_with_abs_tol_Vector (Vector_3 0 0 0) omega (1 / 10 ^ 10)"
    using component_le_norm [of omega] True by (simp add: equal_with_abs_tol_Vector_def)
  have "1 - cos (norm_Vector omega) \<le> norm_Vector omega * norm_Vector omega / 2"
    by (rule one_minus_cos_le)
  moreover have "norm_Vector omega * norm_Vector omega \<le> (1 / 10 ^ 10) * (1 / 10 ^ 10)"
    using True norm_Vector_nonneg [of omega] by (intro mult_mono) auto
  ultimately have "\<not> 2 * cos (norm_Vector omega) - 2 < - (1 / 10 ^ 7)" by simp
  then show ?thesis
    using close by (simp add: localCoordinates_retract_def ret loc)
next
  case False
  define t where "t = norm_Vector omega"
  have t0: "t \<noteq> 0" "0 \<le> t" using False norm_Vector_nonneg [of omega] by (simp_all add: t_def)
  have tpi: "\<bar>t\<bar> < pi" using t0 lt by (simp add: t_def)
  have unit: "v0 (Vector_divide omega t) * v0 (Vector_divide omega t)
       + v1 (Vector_divide omega t) * v1 (Vector_divide omega t)
       + v2 (Vector_divide omega t) * v2 (Vector_divide omega t) = 1"
    unfolding t_def using t0 by (intro normalised_unit) (simp add: t_def)
  from Logmap_rodriguez_core [OF unit tpi, of NDEBUG]
  obtain D where D: "rodriguez NDEBUG (Vector_divide omega t) t = Inr D"
    and tr: "trace (matrix D) = 1 + 2 * cos t"
    and imp: "\<not> \<bar>trace (matrix D) + 1\<bar> < 1 / 10 ^ 10 \<longrightarrow>
        equal_with_abs_tol_Vector (Logmap D) (Vector_times t (Vector_divide omega t)) (1 / 10 ^ 10) \<and>
        (trace (matrix D) - 3 < - (1 / 10 ^ 7) \<longrightarrow> Logmap D = Vector_times t (Vector_divide omega t))"
    by blast
  have npi: "\<not> \<bar>trace (matrix D) + 1\<bar> < 1 / 10 ^ 10"
    using far by (simp add: tr t_def)
  have ret: "retract NDEBUG R omega EXPMAP = Inr (Rot3_times R D)"
    using False D by (simp add: retract_def Expmap_def rodriguez_Vector_def Let_def t_def)
  have loc: "localCoordinates R (Rot3_times R D) EXPMAP = Logmap D"
    by (simp add: localCoordinates_def between_retract [OF rot])
  have undo: "Vector_times t (Vector_divide omega t) = omega"
    using t0 by (simp add: Vector_times_divide)
  have tr3: "trace (matrix D) - 3 = 2 * cos (norm_Vector omega) - 2"
    by (simp add: tr t_def)
  from imp npi have "equal_with_abs_tol_Vector (Logmap D) (Vector_times t (Vector_divide omega t)) (1 / 10 ^ 10) \<and>
        (trace (matrix D) - 3 < - (1 / 10 ^ 7) \<longrightarrow> Logmap D = Vector_times t (Vector_divide omega t))"
    by blast
  then have "equal_with_abs_tol_Vector (Logmap D) omega (1 / 10 ^ 10) \<and>
        (2 * cos (norm_Vector omega) - 2 < - (1 / 10 ^ 7) \<longrightarrow> Logmap D = omega)"
    unfolding undo tr3 .
  then show ?thesis
    by (simp add: localCoordinates_retract_def ret loc)
qed

lemma near_pi_trace:
  "\<bar>2 - 2 * cos (1 / 10 ^ 6 :: real)\<bar> < 1 / 10 ^ 10"
proof -
  have b: "c \<le> 1 \<Longrightarrow> 1 - c \<le> (1 / 10 ^ 6) * (1 / 10 ^ 6) / 2 \<Longrightarrow> \<bar>2 - 2 * c\<bar> < 1 / 10 ^ 10"
    for c :: real
    by (simp add: abs_if)
  show ?thesis by (rule b [OF cos_le_one one_minus_cos_le])
qed

lemma near_pi_rotation:
  "rodriguez NDEBUG (Vector_3 0 0 1) (- (pi - 1 / 10 ^ 6)) =
     Inr (Rot3_entries (- cos (1 / 10 ^ 6)) (sin (1 / 10 ^ 6)) 0
                       (- sin (1 / 10 ^ 6)) (- cos (1 / 10 ^ 6)) 0
                       0 0 1)"
  by (simp add: rodriguez_def Let_def)

lemma near_pi_rotation_flipped:
  "rodriguez NDEBUG (Vector_3 0 0 (- 1)) (pi - 1 / 10 ^ 6) =
     Inr (Rot3_entries (- cos (1 / 10 ^ 6)) (sin (1 / 10 ^ 6)) 0
                       (- sin (1 / 10 ^ 6)) (- cos (1 / 10 ^ 6)) 0
                       0 0 1)"
  by (simp add: rodriguez_def Let_def)

lemma near_pi_Logmap:
  "Logmap (Rot3_entries (- cos (1 / 10 ^ 6)) (sin (1 / 10 ^ 6)) 0
                       (- sin (1 / 10 ^ 6)) (- cos (1 / 10 ^ 6)) 0
                       0 0 1) = Vector_3 0 0 pi"
  using near_pi_trace by (simp add: Logmap_def Rot3_entries_def Let_def Vector_times_def)

section \<open>The round trips\<close>

lemma is_rotation_identity: "is_rotation Rot3_identity"
  by (simp add: is_rotation_def orthonormal_def Rot3_identity_def Matrix_times_def transpose_Rot3_def matrix_def
        I3_def determinant_def)

lemma far_apart:
  "\<not> equal_with_abs_tol_Vector (Vector_3 0 0 pi) (Vector_3 0 0 (- (pi - 1 / 10 ^ 6))) 1"
  using pi_ge_two by (simp add: equal_with_abs_tol_Vector_def abs_if)

text \<open>
  C3, as amended: for every unit axis \<open>w\<close> and every angle \<open>|\<theta>| < \<pi>\<close>,
  \<^verbatim>\<open>rodriguez(w, \<theta>)\<close> returns a rotation in either build, and when its trace is not
  within \<open>1e-10\<close> of \<open>-1\<close> (\<^verbatim>\<open>Logmap\<close> does not take its half-turn branch),
  \<^verbatim>\<open>Logmap\<close> of it is \<open>w \<cdot> \<theta>\<close>: equal in real arithmetic in the \<^verbatim>\<open>acos\<close> branch
  (\<open>tr - 3 < -1e-7\<close>), and within \<open>1e-10\<close> in each component in the Taylor branch.
  \<^verbatim>\<open>Logmap\<close> of the identity is \<open>(0, 0, 0)\<close>.
\<close>

theorem Logmap_rodriguez_roundtrip:
  "v0 w * v0 w + v1 w * v1 w + v2 w * v2 w = 1 \<Longrightarrow> \<bar>theta\<bar> < pi \<Longrightarrow>
   (\<exists>R. rodriguez NDEBUG w theta = Inr R \<and>
      (\<not> \<bar>trace (matrix R) + 1\<bar> < 1 / 10 ^ 10 \<longrightarrow>
         equal_with_abs_tol_Vector (Logmap R) (Vector_times theta w) (1 / 10 ^ 10) \<and>
         (trace (matrix R) - 3 < - (1 / 10 ^ 7) \<longrightarrow> Logmap R = Vector_times theta w))) \<and>
   Logmap Rot3_identity = Vector_3 0 0 0"
  using Logmap_rodriguez_core [of w theta NDEBUG] Logmap_identity by blast

theorem Logmap_rodriguez_roundtrip_witness:
  "v0 (Vector_3 0 0 1) * v0 (Vector_3 0 0 1) + v1 (Vector_3 0 0 1) * v1 (Vector_3 0 0 1)
     + v2 (Vector_3 0 0 1) * v2 (Vector_3 0 0 (1::real)) = 1 \<and>
   \<bar>pi / 2\<bar> < pi \<and>
   rodriguez True (Vector_3 0 0 1) (pi / 2) = Inr (Rot3_entries 0 (- 1) 0  1 0 0  0 0 1) \<and>
   \<not> \<bar>trace (matrix (Rot3_entries 0 (- 1) 0  1 0 0  0 0 1)) + 1\<bar> < 1 / 10 ^ 10 \<and>
   trace (matrix (Rot3_entries 0 (- 1) 0  1 0 0  0 0 1)) - 3 < - (1 / 10 ^ 7) \<and>
   Logmap (Rot3_entries 0 (- 1) 0  1 0 0  0 0 1) = Vector_3 0 0 (pi / 2)"
proof -
  have u: "v0 (Vector_3 0 0 1) * v0 (Vector_3 0 0 1) + v1 (Vector_3 0 0 1) * v1 (Vector_3 0 0 1)
     + v2 (Vector_3 0 0 1) * v2 (Vector_3 0 0 (1::real)) = 1" by simp
  have a: "\<bar>pi / 2\<bar> < pi" by simp
  have r: "rodriguez True (Vector_3 0 0 1) (pi / 2) = Inr (Rot3_entries 0 (- 1) 0  1 0 0  0 0 1)"
    by (simp add: rodriguez_def Let_def)
  have t: "trace (matrix (Rot3_entries 0 (- 1) 0  1 0 0  0 0 1)) = 1"
    by (simp add: trace_def matrix_def Rot3_entries_def)
  from Logmap_rodriguez_roundtrip [OF u a, of True] r t
  have "Logmap (Rot3_entries 0 (- 1) 0  1 0 0  0 0 1) = Vector_times (pi / 2) (Vector_3 0 0 1)"
    by auto
  then show ?thesis using u a r t by (simp add: Vector_times_def)
qed

text \<open>
  C3 as stated fails close to \<open>-\<pi>\<close>. For the unit axis \<open>(0, 0, 1)\<close> and
  \<open>\<theta> = -(\<pi> - 1e-6)\<close> the trace is within \<open>1e-12\<close> of \<open>-1\<close>, \<^verbatim>\<open>Logmap\<close> takes
  the half-turn branch and returns \<open>(0, 0, \<pi>)\<close>, while \<open>w \<cdot> \<theta>\<close> is
  \<open>(0, 0, -(\<pi> - 1e-6))\<close>: the third components differ by more than 1.
\<close>

theorem Logmap_rodriguez_near_minus_pi_counterexample:
  "v0 (Vector_3 0 0 1) * v0 (Vector_3 0 0 1) + v1 (Vector_3 0 0 1) * v1 (Vector_3 0 0 1)
     + v2 (Vector_3 0 0 1) * v2 (Vector_3 0 0 (1::real)) = 1 \<and>
   \<bar>- (pi - 1 / 10 ^ 6)\<bar> < pi \<and>
   Logmap_rodriguez True (Vector_3 0 0 1) (- (pi - 1 / 10 ^ 6)) = Inr (Vector_3 0 0 pi) \<and>
   Logmap_rodriguez False (Vector_3 0 0 1) (- (pi - 1 / 10 ^ 6)) = Inr (Vector_3 0 0 pi) \<and>
   Vector_times (- (pi - 1 / 10 ^ 6)) (Vector_3 0 0 1) = Vector_3 0 0 (- (pi - 1 / 10 ^ 6)) \<and>
   \<not> equal_with_abs_tol_Vector (Vector_3 0 0 pi) (Vector_3 0 0 (- (pi - 1 / 10 ^ 6))) 1"
proof -
  have a: "\<bar>- (pi - 1 / 10 ^ 6)\<bar> < pi" using pi_ge_two by (simp add: abs_if)
  have l: "Logmap_rodriguez NDEBUG (Vector_3 0 0 1) (- (pi - 1 / 10 ^ 6)) = Inr (Vector_3 0 0 pi)"
    for NDEBUG
    by (simp only: Logmap_rodriguez_def near_pi_rotation sum.case near_pi_Logmap)
  have u: "v0 (Vector_3 0 0 1) * v0 (Vector_3 0 0 1) + v1 (Vector_3 0 0 1) * v1 (Vector_3 0 0 1)
     + v2 (Vector_3 0 0 1) * v2 (Vector_3 0 0 (1::real)) = 1" by simp
  have v: "Vector_times t (Vector_3 0 0 1) = Vector_3 0 0 t" for t
    by (simp add: Vector_times_def)
  show ?thesis using u a l [of True] l [of False] v [of "- (pi - 1 / 10 ^ 6)"] far_apart by blast
qed

text \<open>
  C2, as amended: for every rotation \<open>R\<close>, every chart mode and every tangent vector
  \<open>\<omega>\<close> inside the chart's radius, the round trip
  \<^verbatim>\<open>localCoordinates(R, retract(R, \<omega>, mode), mode)\<close> is approximately \<open>\<omega>\<close>. The radius
  is small \<open>\<parallel>\<omega>\<parallel>\<close> for the two Cayley modes, taken here as \<open>\<parallel>\<omega>\<parallel> < \<pi>\<close>; in real
  arithmetic the round trip then returns \<open>\<omega>\<close> itself. For \<^verbatim>\<open>EXPMAP\<close> it is
  \<open>\<parallel>\<omega>\<parallel> < \<pi>\<close> with \<open>2 + 2 cos \<parallel>\<omega>\<parallel> \<ge> 1e-10\<close> (the trace of the increment is not
  within \<open>1e-10\<close> of \<open>-1\<close>, which holds up to about \<open>\<pi> - 1e-5\<close>); the round trip then
  returns a vector within \<open>1e-10\<close> of \<open>\<omega>\<close> in each component, and \<open>\<omega>\<close> itself in the
  \<^verbatim>\<open>acos\<close> branch of \<^verbatim>\<open>Logmap\<close>. No mode fails in either build.
\<close>

theorem localCoordinates_retract_roundtrip:
  "is_rotation R \<Longrightarrow> norm_Vector omega < pi \<Longrightarrow>
   localCoordinates_retract NDEBUG R omega CALEY = Inr omega \<and>
   localCoordinates_retract NDEBUG R omega SLOW_CALEY = Inr omega \<and>
   (1 / 10 ^ 10 \<le> 2 + 2 * cos (norm_Vector omega) \<longrightarrow>
      (\<exists>v. localCoordinates_retract NDEBUG R omega EXPMAP = Inr v \<and>
           equal_with_abs_tol_Vector v omega (1 / 10 ^ 10) \<and>
           (2 * cos (norm_Vector omega) - 2 < - (1 / 10 ^ 7) \<longrightarrow> v = omega)))"
  using Cayley_roundtrip [of R CALEY NDEBUG omega] Cayley_roundtrip [of R SLOW_CALEY NDEBUG omega]
    EXPMAP_roundtrip [of R omega NDEBUG]
  by blast

theorem localCoordinates_retract_roundtrip_witness:
  "is_rotation (Rot3_entries 0 (- 1) 0  1 0 0  0 0 1) \<and>
   norm_Vector (Vector_3 0 0 (pi / 2)) < pi \<and>
   1 / 10 ^ 10 \<le> 2 + 2 * cos (norm_Vector (Vector_3 0 0 (pi / 2))) \<and>
   localCoordinates_retract True (Rot3_entries 0 (- 1) 0  1 0 0  0 0 1) (Vector_3 0 0 (pi / 2)) CALEY
     = Inr (Vector_3 0 0 (pi / 2)) \<and>
   localCoordinates_retract True (Rot3_entries 0 (- 1) 0  1 0 0  0 0 1) (Vector_3 0 0 (pi / 2)) SLOW_CALEY
     = Inr (Vector_3 0 0 (pi / 2)) \<and>
   localCoordinates_retract True (Rot3_entries 0 (- 1) 0  1 0 0  0 0 1) (Vector_3 0 0 (pi / 2)) EXPMAP
     = Inr (Vector_3 0 0 (pi / 2))"
proof -
  have r: "is_rotation (Rot3_entries 0 (- 1) 0  1 0 0  0 0 1)"
    by (simp add: is_rotation_def orthonormal_def Rot3_entries_def Matrix_times_def transpose_Rot3_def matrix_def
          I3_def determinant_def)
  have "sqrt (pi / 2 * (pi / 2)) = \<bar>pi / 2\<bar>" by (rule real_sqrt_abs2)
  then have n: "norm_Vector (Vector_3 0 0 (pi / 2)) = pi / 2"
    by (simp add: norm_Vector_def del: real_sqrt_abs2)
  have lt: "norm_Vector (Vector_3 0 0 (pi / 2)) < pi" by (simp only: n) simp
  note t = localCoordinates_retract_roundtrip [OF r lt, of True]
  have e: "localCoordinates_retract True (Rot3_entries 0 (- 1) 0  1 0 0  0 0 1) (Vector_3 0 0 (pi / 2)) EXPMAP
     = Inr (Vector_3 0 0 (pi / 2))"
    using t by (auto simp: n)
  show ?thesis using t r e by (simp add: n)
qed

text \<open>
  C2 as stated fails for \<^verbatim>\<open>EXPMAP\<close> close to the radius \<open>\<pi>\<close>. At the identity and
  \<open>\<omega> = (0, 0, -(\<pi> - 1e-6))\<close>, of norm \<open>\<pi> - 1e-6 < \<pi>\<close>, the round trip returns
  \<open>(0, 0, \<pi>)\<close>: \<^verbatim>\<open>Logmap\<close> takes its half-turn branch, whose axis has a positive
  third component. The result differs from \<open>\<omega>\<close> by more than 1.
\<close>

theorem localCoordinates_retract_near_pi_counterexample:
  "is_rotation Rot3_identity \<and>
   norm_Vector (Vector_3 0 0 (- (pi - 1 / 10 ^ 6))) < pi \<and>
   localCoordinates_retract True Rot3_identity (Vector_3 0 0 (- (pi - 1 / 10 ^ 6))) EXPMAP
     = Inr (Vector_3 0 0 pi) \<and>
   localCoordinates_retract False Rot3_identity (Vector_3 0 0 (- (pi - 1 / 10 ^ 6))) EXPMAP
     = Inr (Vector_3 0 0 pi) \<and>
   \<not> equal_with_abs_tol_Vector (Vector_3 0 0 pi) (Vector_3 0 0 (- (pi - 1 / 10 ^ 6))) 1"
proof -
  have p: "0 < pi - 1 / 10 ^ 6" using pi_ge_two by simp
  have gn: "0 < t \<Longrightarrow> norm_Vector (Vector_3 0 0 (- t)) = t" for t
    by (simp add: norm_Vector_def)
  have gd: "0 < t \<Longrightarrow> Vector_divide (Vector_3 0 0 (- t)) t = Vector_3 0 0 (- 1)" for t
    by (simp add: Vector_divide_def)
  note n = gn [OF p] and d = gd [OF p]
  have lt: "norm_Vector (Vector_3 0 0 (- (pi - 1 / 10 ^ 6))) < pi"
    by (simp only: n) simp
  have big: "(pi - 1 / 10 ^ 6 < 1 / 10 ^ 10) = False" using pi_ge_two by simp
  have ret: "retract NDEBUG Rot3_identity (Vector_3 0 0 (- (pi - 1 / 10 ^ 6))) EXPMAP =
      Inr (Rot3_times Rot3_identity
        (Rot3_entries (- cos (1 / 10 ^ 6)) (sin (1 / 10 ^ 6)) 0
                      (- sin (1 / 10 ^ 6)) (- cos (1 / 10 ^ 6)) 0
                      0 0 1))" for NDEBUG
    by (simp only: retract_def CoordinatesMode.case Expmap_def rodriguez_Vector_def Let_def n big
          if_False d near_pi_rotation_flipped sum.case)
  have l: "localCoordinates_retract NDEBUG Rot3_identity (Vector_3 0 0 (- (pi - 1 / 10 ^ 6))) EXPMAP
     = Inr (Vector_3 0 0 pi)" for NDEBUG
    by (simp only: localCoordinates_retract_def ret sum.case localCoordinates_def
          CoordinatesMode.case between_retract [OF is_rotation_identity] near_pi_Logmap)
  show ?thesis using is_rotation_identity lt l [of True] l [of False] far_apart by blast
qed

end
